theory Spec2Isabelle
  imports Complex_Main
begin

section \<open>Strings\<close>

text \<open>
  Python's \<^verbatim>\<open>x.startswith(p)\<close> and \<^verbatim>\<open>s in x\<close> on strings. Both are total on
  strings: neither raises.
\<close>

definition startswith :: "string \<Rightarrow> string \<Rightarrow> bool" where
  "startswith x p = (take (length p) x = p)"

fun contains :: "string \<Rightarrow> string \<Rightarrow> bool" where
  "contains [] s = (s = [])"
| "contains (c # cs) s = (startswith (c # cs) s \<or> contains cs s)"

section \<open>Errors\<close>

text \<open>
  \<^verbatim>\<open>Exception msg\<close> is the \<^verbatim>\<open>raise Exception(...)\<close> of \<^verbatim>\<open>predict\<close> with its message.
  \<^verbatim>\<open>AssertionError var value\<close> is the failed \<^verbatim>\<open>assert\<close> whose message is
  \<^verbatim>\<open>f'missing {var=}'\<close>. \<^verbatim>\<open>ExternalError msg\<close> is any exception raised inside
  numpy, pandas, scikit-learn or xgboost. The next five are the \<^verbatim>\<open>OSError\<close>s of
  \<^verbatim>\<open>os.makedirs\<close> and \<^verbatim>\<open>open\<close>, with the path they name; the last two are raised by
  an operation applied to a value of the wrong type.
\<close>

datatype error =
    Exception string
  | AssertionError string string
  | ExternalError string
  | FileExistsError string
  | NotADirectoryError string
  | FileNotFoundError string
  | IsADirectoryError string
  | PermissionError string
  | TypeError string
  | AttributeError string

section \<open>Feature selector (\<^verbatim>\<open>predict\<close>, lines 31 to 55)\<close>

text \<open>
  The \<^verbatim>\<open>if/elif\<close> chain that defines the closure \<^verbatim>\<open>check\<close>, in the source's order,
  with the final \<^verbatim>\<open>else: raise Exception(f'{feature_set} not recognized')\<close>.
\<close>

definition select_check :: "string \<Rightarrow> error + (string \<Rightarrow> bool)" where
  "select_check feature_set =
    (if feature_set = ''I'' then
       Inr (\<lambda>x. x \<in> set [''aa.npy'', ''cn.npy'', ''jc.npy'', ''pa.npy''])
     else if feature_set = ''II-A'' then
       Inr (\<lambda>x. \<not> startswith x ''na'')
     else if feature_set = ''II-B'' then
       Inr (\<lambda>x. (x \<in> set [''aa.npy'', ''cn.npy'', ''jc.npy'', ''pa.npy'']
                    \<or> contains x ''_q100'')
                 \<and> \<not> startswith x ''na'')
     else if feature_set = ''III-A'' then
       Inr (\<lambda>x. startswith x ''na'')
     else if feature_set = ''III-B'' then
       Inr (\<lambda>x. startswith x ''na'' \<and> contains x ''_q100'')
     else if feature_set = ''I+II-A+III-A'' then
       Inr (\<lambda>x. startswith x ''na''
                 \<or> x \<in> set [''aa.npy'', ''cn.npy'', ''jc.npy'', ''pa.npy'']
                 \<or> \<not> startswith x ''na'')
     else Inl (Exception (feature_set @ '' not recognized'')))"

text \<open>The six identifiers, as listed in \<^verbatim>\<open>single_all_features\<close> (line 125).\<close>

definition feature_sets :: "string list" where
  "feature_sets = [''I'', ''II-A'', ''II-B'', ''III-A'', ''III-B'', ''I+II-A+III-A'']"

section \<open>The selection predicates as Python expressions\<close>

text \<open>
  The bodies of the six closures, as Python evaluates them. A value is a string, a
  boolean or a list. \<^verbatim>\<open>a in b\<close> raises \<^verbatim>\<open>TypeError\<close> unless \<open>b\<close> is a list, or
  both are strings; \<^verbatim>\<open>a.startswith(b)\<close> raises \<^verbatim>\<open>AttributeError\<close> unless \<open>a\<close> is a
  string and \<^verbatim>\<open>TypeError\<close> unless \<open>b\<close> is one; \<^verbatim>\<open>and\<close> and \<^verbatim>\<open>or\<close> evaluate
  their right operand only when needed and return an operand, not its truth value;
  \<^verbatim>\<open>not\<close> returns a boolean.
\<close>

datatype pyval = PyStr string | PyBool bool | PyList "pyval list"

definition truthy :: "pyval \<Rightarrow> bool" where
  "truthy v = (case v of PyStr s \<Rightarrow> s \<noteq> [] | PyBool b \<Rightarrow> b | PyList vs \<Rightarrow> vs \<noteq> [])"

definition py_in :: "pyval \<Rightarrow> pyval \<Rightarrow> error + pyval" where
  "py_in a b =
    (case b of
       PyList vs \<Rightarrow> Inr (PyBool (a \<in> set vs))
     | PyStr s \<Rightarrow>
         (case a of
            PyStr t \<Rightarrow> Inr (PyBool (contains s t))
          | PyBool c \<Rightarrow> Inl (TypeError ''in <string> requires string as left operand, not bool'')
          | PyList vs \<Rightarrow> Inl (TypeError ''in <string> requires string as left operand, not list''))
     | PyBool c \<Rightarrow> Inl (TypeError ''argument of type bool is not iterable''))"

definition py_startswith :: "pyval \<Rightarrow> pyval \<Rightarrow> error + pyval" where
  "py_startswith a b =
    (case a of
       PyStr s \<Rightarrow>
         (case b of
            PyStr p \<Rightarrow> Inr (PyBool (startswith s p))
          | PyBool c \<Rightarrow> Inl (TypeError ''startswith first arg must be str, not bool'')
          | PyList vs \<Rightarrow> Inl (TypeError ''startswith first arg must be str, not list''))
     | PyBool c \<Rightarrow> Inl (AttributeError ''bool object has no attribute startswith'')
     | PyList vs \<Rightarrow> Inl (AttributeError ''list object has no attribute startswith''))"

text \<open>\<open>PyX\<close> is the parameter \<^verbatim>\<open>x\<close> of the closure.\<close>

datatype expr =
    PyX
  | PyLit pyval
  | PyIn expr expr
  | PyStartswith expr expr
  | PyNot expr
  | PyAnd expr expr
  | PyOr expr expr

fun eval :: "pyval \<Rightarrow> expr \<Rightarrow> error + pyval" where
  "eval x PyX = Inr x"
| "eval x (PyLit v) = Inr v"
| "eval x (PyIn a b) =
     (case eval x a of
        Inl err \<Rightarrow> Inl err
      | Inr va \<Rightarrow> (case eval x b of Inl err \<Rightarrow> Inl err | Inr vb \<Rightarrow> py_in va vb))"
| "eval x (PyStartswith a b) =
     (case eval x a of
        Inl err \<Rightarrow> Inl err
      | Inr va \<Rightarrow> (case eval x b of Inl err \<Rightarrow> Inl err | Inr vb \<Rightarrow> py_startswith va vb))"
| "eval x (PyNot a) =
     (case eval x a of Inl err \<Rightarrow> Inl err | Inr va \<Rightarrow> Inr (PyBool (\<not> truthy va)))"
| "eval x (PyAnd a b) =
     (case eval x a of Inl err \<Rightarrow> Inl err | Inr va \<Rightarrow> if truthy va then eval x b else Inr va)"
| "eval x (PyOr a b) =
     (case eval x a of Inl err \<Rightarrow> Inl err | Inr va \<Rightarrow> if truthy va then Inr va else eval x b)"

text \<open>Lines 31 to 55 again, each closure by the expression it returns.\<close>

definition static_names :: pyval where
  "static_names = PyList [PyStr ''aa.npy'', PyStr ''cn.npy'', PyStr ''jc.npy'', PyStr ''pa.npy'']"

definition check_body :: "string \<Rightarrow> error + expr" where
  "check_body feature_set =
    (if feature_set = ''I'' then
       Inr (PyIn PyX (PyLit static_names))
     else if feature_set = ''II-A'' then
       Inr (PyNot (PyStartswith PyX (PyLit (PyStr ''na''))))
     else if feature_set = ''II-B'' then
       Inr (PyAnd (PyOr (PyIn PyX (PyLit static_names)) (PyIn (PyLit (PyStr ''_q100'')) PyX))
                  (PyNot (PyStartswith PyX (PyLit (PyStr ''na'')))))
     else if feature_set = ''III-A'' then
       Inr (PyStartswith PyX (PyLit (PyStr ''na'')))
     else if feature_set = ''III-B'' then
       Inr (PyAnd (PyStartswith PyX (PyLit (PyStr ''na''))) (PyIn (PyLit (PyStr ''_q100'')) PyX))
     else if feature_set = ''I+II-A+III-A'' then
       Inr (PyOr (PyOr (PyStartswith PyX (PyLit (PyStr ''na''))) (PyIn PyX (PyLit static_names)))
                 (PyNot (PyStartswith PyX (PyLit (PyStr ''na'')))))
     else Inl (Exception (feature_set @ '' not recognized'')))"

section \<open>Decimal text of integers, paths\<close>

text \<open>
  \<^verbatim>\<open>str(n)\<close> of a Python integer, and the format specification \<^verbatim>\<open>{network:02}\<close>:
  the decimal text, zero-padded on the left to two characters (a negative number's text
  already has two characters or more).
\<close>

definition digit_char :: "nat \<Rightarrow> char" where
  "digit_char d = ''0123456789'' ! d"

function str_nat :: "nat \<Rightarrow> string" where
  "str_nat n = (if n < 10 then [digit_char n] else str_nat (n div 10) @ [digit_char (n mod 10)])"
  by pat_completeness auto
termination
  by (relation "measure id") auto

declare str_nat.simps [simp del]

definition str_int :: "int \<Rightarrow> string" where
  "str_int i = (if i < 0 then CHR ''-'' # str_nat (nat (- i)) else str_nat (nat i))"

definition format_02 :: "int \<Rightarrow> string" where
  "format_02 i = (let s = str_int i in if length s < 2 then CHR ''0'' # s else s)"

text \<open>
  \<^verbatim>\<open>os.path.join(a, b)\<close> on POSIX: an absolute second component discards the first;
  otherwise the two are joined by one slash unless the first is empty or already ends
  with one.
\<close>

definition join :: "string \<Rightarrow> string \<Rightarrow> string" where
  "join a b =
    (if startswith b ''/'' then b
     else if a = [] \<or> last a = CHR ''/'' then a @ b
     else a @ ''/'' @ b)"

text \<open>
  The ancestors of a path: its proper prefixes that end just before a slash. The walk
  carries the prefix read so far.
\<close>

fun ancestors_from :: "string \<Rightarrow> string \<Rightarrow> string list" where
  "ancestors_from acc [] = []"
| "ancestors_from acc (c # cs) =
     (if c = CHR ''/'' \<and> acc \<noteq> [] then [acc] else []) @ ancestors_from (acc @ [c]) cs"

definition ancestors :: "string \<Rightarrow> string list" where
  "ancestors p = ancestors_from [] p"

section \<open>The world: file system, standard output, calls into the libraries\<close>

text \<open>
  The estimators that \<^verbatim>\<open>predict\<close> constructs (lines 78 to 93), with the arguments it
  passes to each constructor.
\<close>

datatype estimator =
    LogisticRegression_pipeline (max_iter: int) (n_jobs_of: int) (random_state_of: int)
  | RandomForest_pipeline (random_state_of: int) (n_jobs_of: int)
  | XGBClassifier (n_jobs_of: int) (random_state_of: int)

text \<open>
  Every call that reads data or fits a model is recorded, in order: the construction of
  the feature matrix from the selected files, the reading of the label file, the
  train/test split, the fit (with the \<^verbatim>\<open>eval_metric\<close> given, if any) and the scoring.
\<close>

datatype call =
    Load_features "string list"
  | Read_pickle string
  | Train_test_split int
  | Fit estimator "string option"
  | Roc_auc_score

text \<open>
  The file system is the set of paths that are directories, the map from the paths of
  regular files to their content, and the set of directories in which no entry can be
  created (they are not writable). The root and the current directory always exist.
\<close>

record world =
  dirs :: "string set"
  files :: "string \<Rightarrow> string option"
  readonly :: "string set"
  stdout :: "string list"
  calls :: "call list"

definition isdir :: "world \<Rightarrow> string \<Rightarrow> bool" where
  "isdir w p = (p \<in> dirs w)"

definition isfile :: "world \<Rightarrow> string \<Rightarrow> bool" where
  "isfile w p = (files w p \<noteq> None)"

text \<open>
  \<^verbatim>\<open>os.makedirs(p, exist_ok=True)\<close>. The components of the path are visited outermost
  first, each with its parent. A component that is a directory is left alone. One that
  is a regular file ends the call: \<^verbatim>\<open>FileExistsError\<close> when it is the path itself,
  \<^verbatim>\<open>NotADirectoryError\<close> on the component below it otherwise. A missing component is
  created, unless its parent is not writable (\<^verbatim>\<open>PermissionError\<close>). The directories
  created before an exception stay.
\<close>

fun mkdirs :: "string \<Rightarrow> string list \<Rightarrow> world \<Rightarrow> (error + unit) \<times> world" where
  "mkdirs parent [] w = (Inr (), w)"
| "mkdirs parent (d # ds) w =
     (if isdir w d then mkdirs d ds w
      else if isfile w d then
        (Inl (if ds = [] then FileExistsError d else NotADirectoryError (hd ds)), w)
      else if parent \<in> readonly w then (Inl (PermissionError d), w)
      else mkdirs d ds (w\<lparr>dirs := insert d (dirs w)\<rparr>))"

definition root_of :: "string \<Rightarrow> string" where
  "root_of p = (if startswith p ''/'' then ''/'' else [])"

definition makedirs :: "string \<Rightarrow> world \<Rightarrow> (error + unit) \<times> world" where
  "makedirs p w = mkdirs (root_of p) (ancestors p @ [p]) w"

text \<open>
  \<^verbatim>\<open>open(p, 'w')\<close> followed by \<^verbatim>\<open>write(s)\<close>: the path must not be a directory, its
  parent must be one, and a new file needs a writable parent.
\<close>

definition write_file :: "string \<Rightarrow> string \<Rightarrow> world \<Rightarrow> (error + unit) \<times> world" where
  "write_file p s w =
     (if isdir w p then (Inl (IsADirectoryError p), w)
      else if ancestors p \<noteq> [] \<and> isfile w (last (ancestors p)) then
        (Inl (NotADirectoryError p), w)
      else if ancestors p \<noteq> [] \<and> \<not> isdir w (last (ancestors p)) then
        (Inl (FileNotFoundError p), w)
      else if \<not> isfile w p
           \<and> (if ancestors p = [] then root_of p else last (ancestors p)) \<in> readonly w then
        (Inl (PermissionError p), w)
      else (Inr (), w\<lparr>files := (files w)(p \<mapsto> s)\<rparr>))"

definition print :: "string \<Rightarrow> world \<Rightarrow> world" where
  "print s w = w\<lparr>stdout := stdout w @ [s]\<rparr>"

definition call :: "call \<Rightarrow> world \<Rightarrow> world" where
  "call c w = w\<lparr>calls := calls w @ [c]\<rparr>"

section \<open>The libraries\<close>

text \<open>
  What numpy, pandas, scikit-learn and xgboost compute is a parameter of the model. Each
  function returns its value or the message of the exception it raises.
  Those that read the disk take the file system \<open>fs\<close> (directories and files).
  \<^item> \<open>scandir fs d\<close>: the names of the entries of directory \<open>d\<close>, in the order
    \<^verbatim>\<open>os.scandir\<close> yields them;
  \<^item> \<open>load_features fs sel\<close>: \<^verbatim>\<open>pd.DataFrame({name: np.load(path)})\<close> over the selected
    (name, path) pairs;
  \<^item> \<open>read_labels fs p\<close>: \<^verbatim>\<open>pd.read_pickle(p).astype(int).values\<close>;
  \<^item> \<open>train_test_split X y random_state\<close>: the four parts X_train, X_test, y_train, y_test;
  \<^item> \<open>fit_predict_proba pipe eval_metric parts\<close>: \<^verbatim>\<open>pipe.fit(X_train, y_train)\<close> (with
    \<^verbatim>\<open>eval_metric\<close> when given) followed by \<^verbatim>\<open>pipe.predict_proba(X_test)[:, 1]\<close>;
  \<^item> \<open>roc_auc_score y_true y_score\<close>;
  \<^item> \<open>str_float\<close>: \<^verbatim>\<open>str\<close> of the score.
\<close>

type_synonym fsys = "string set \<times> (string \<Rightarrow> string option)"
type_synonym frame = "(string \<times> real list) list"
type_synonym labels = "int list"
type_synonym parts = "frame \<times> frame \<times> labels \<times> labels"

record ext =
  scandir :: "fsys \<Rightarrow> string \<Rightarrow> string list"
  load_features :: "fsys \<Rightarrow> (string \<times> string) list \<Rightarrow> string + frame"
  read_labels :: "fsys \<Rightarrow> string \<Rightarrow> string + labels"
  train_test_split :: "frame \<Rightarrow> labels \<Rightarrow> int \<Rightarrow> string + parts"
  fit_predict_proba :: "estimator \<Rightarrow> string option \<Rightarrow> parts \<Rightarrow> string + real list"
  roc_auc_score :: "labels \<Rightarrow> real list \<Rightarrow> string + real"
  str_float :: "real \<Rightarrow> string"

definition fsys_of :: "world \<Rightarrow> fsys" where
  "fsys_of w = (dirs w, files w)"

section \<open>\<^verbatim>\<open>predict\<close>\<close>

text \<open>
  Lines 78 to 96: the estimator constructed for each classifier name, with the
  \<^verbatim>\<open>n_jobs\<close> and \<^verbatim>\<open>random_state\<close> it receives; any other name raises.
\<close>

definition make_estimator :: "string \<Rightarrow> int \<Rightarrow> int \<Rightarrow> error + estimator" where
  "make_estimator clf random_state n_jobs =
    (if clf = ''LogisticRegression'' then
       Inr (LogisticRegression_pipeline 10000 n_jobs random_state)
     else if clf = ''RandomForest'' then
       Inr (RandomForest_pipeline random_state (if n_jobs < 0 then 100 else n_jobs))
     else if clf = ''XGBoost'' then
       Inr (XGBClassifier (if n_jobs < 0 then 100 else n_jobs) random_state)
     else Inl (Exception (''Invalid clf argument: '' @ clf)))"

text \<open>
  Lines 65 to 74: the feature matrix of the files whose name satisfies \<open>check\<close>, the
  listing of the selected names, the labels.
\<close>

definition load :: "ext \<Rightarrow> (string \<Rightarrow> bool) \<Rightarrow> string \<Rightarrow> string \<Rightarrow> world
    \<Rightarrow> (error + frame \<times> labels) \<times> world" where
  "load e check feature_dir samples_filepath w =
    (let selected = filter check (scandir e (fsys_of w) feature_dir);
         w1 = call (Load_features (map (join feature_dir) selected)) w
     in case load_features e (fsys_of w) (map (\<lambda>name. (name, join feature_dir name)) selected) of
          Inl m \<Rightarrow> (Inl (ExternalError m), w1)
        | Inr X \<Rightarrow>
            (let w2 = fold print selected w1;
                 w3 = call (Read_pickle samples_filepath) w2
             in case read_labels e (fsys_of w) samples_filepath of
                  Inl m \<Rightarrow> (Inl (ExternalError m), w3)
                | Inr y \<Rightarrow> (Inr (X, y), w3)))"

text \<open>
  Lines 76 to 104: split, construct the estimator, fit it (xgboost with
  \<^verbatim>\<open>eval_metric='logloss'\<close>), score the held-out part.
\<close>

definition evaluate :: "ext \<Rightarrow> frame \<Rightarrow> labels \<Rightarrow> string \<Rightarrow> int \<Rightarrow> int \<Rightarrow> world
    \<Rightarrow> (error + real) \<times> world" where
  "evaluate e X y clf random_state n_jobs w =
    (let w1 = call (Train_test_split random_state) w
     in case train_test_split e X y random_state of
          Inl m \<Rightarrow> (Inl (ExternalError m), w1)
        | Inr sp \<Rightarrow>
            (case make_estimator clf random_state n_jobs of
               Inl err \<Rightarrow> (Inl err, w1)
             | Inr pipe \<Rightarrow>
                 (let eval_metric = (if clf = ''XGBoost'' then Some ''logloss'' else None);
                      w2 = call (Fit pipe eval_metric) w1
                  in case fit_predict_proba e pipe eval_metric sp of
                       Inl m \<Rightarrow> (Inl (ExternalError m), w2)
                     | Inr proba \<Rightarrow>
                         (let w3 = call Roc_auc_score w2
                          in case roc_auc_score e (snd (snd (snd sp))) proba of
                               Inl m \<Rightarrow> (Inl (ExternalError m), w3)
                             | Inr auc \<Rightarrow> (Inr auc, w3)))))"

text \<open>
  The whole function. The result is an error, \<open>None\<close> (the "no data" return of line 61)
  or the score.
\<close>

definition predict :: "ext \<Rightarrow> string \<Rightarrow> string \<Rightarrow> string \<Rightarrow> int \<Rightarrow> int \<Rightarrow> world
    \<Rightarrow> (error + real option) \<times> world" where
  "predict e directory feature_set clf random_state n_jobs w =
    (case select_check feature_set of
       Inl err \<Rightarrow> (Inl err, w)
     | Inr check \<Rightarrow>
         if \<not> isdir w directory then (Inl (AssertionError ''directory'' directory), w)
         else
           (let feature_dir = join directory ''features''
            in if \<not> isdir w feature_dir then (Inr None, print ''returning none!'' w)
               else
                 (let samples_filepath = join directory ''samples.pkl''
                  in if \<not> isfile w samples_filepath
                     then (Inl (AssertionError ''samples_filepath'' samples_filepath), w)
                     else
                       (case load e check feature_dir samples_filepath w of
                          (Inl err, w1) \<Rightarrow> (Inl err, w1)
                        | (Inr (X, y), w1) \<Rightarrow>
                            (case evaluate e X y clf random_state n_jobs w1 of
                               (Inl err, w2) \<Rightarrow> (Inl err, w2)
                             | (Inr auc, w2) \<Rightarrow> (Inr (Some auc), w2))))))"

section \<open>\<^verbatim>\<open>single\<close>\<close>

definition network_directory :: "int \<Rightarrow> string" where
  "network_directory network = ''/data/s1620444/'' @ format_02 network"

definition network_directory_out :: "int \<Rightarrow> string" where
  "network_directory_out network = ''/data/s1620444/'' @ format_02 network @ ''/properties''"

definition filepath_out :: "int \<Rightarrow> string \<Rightarrow> string \<Rightarrow> string" where
  "filepath_out network feature_set clf =
     join (network_directory_out network) (feature_set @ ''_'' @ clf @ ''.float'')"

definition single :: "ext \<Rightarrow> int \<Rightarrow> string \<Rightarrow> string \<Rightarrow> int \<Rightarrow> int \<Rightarrow> world
    \<Rightarrow> (error + unit) \<times> world" where
  "single e network clf feature_set random_state n_jobs w =
    (let directory = network_directory network
     in case makedirs directory w of
          (Inl err, w1) \<Rightarrow> (Inl err, w1)
        | (Inr u, w1) \<Rightarrow>
            (let directory_out = network_directory_out network
             in case makedirs directory_out w1 of
                  (Inl err, w2) \<Rightarrow> (Inl err, w2)
                | (Inr u, w2) \<Rightarrow>
                    if isfile w2 (filepath_out network feature_set clf)
                    then (Inr (), print ''this is a file'' w2)
                    else
                      (case predict e directory feature_set clf random_state n_jobs w2 of
                         (Inl err, w3) \<Rightarrow> (Inl err, w3)
                       | (Inr None, w3) \<Rightarrow> (Inr (), print ''None'' w3)
                       | (Inr (Some auc), w3) \<Rightarrow>
                           write_file (filepath_out network feature_set clf) (str_float e auc)
                             (print (str_float e auc) w3))))"

text \<open>Lines 137 to 140 on their own: the two \<^verbatim>\<open>os.makedirs\<close> calls before the cache check.\<close>

definition prepare :: "int \<Rightarrow> world \<Rightarrow> (error + unit) \<times> world" where
  "prepare n w =
     (case makedirs (network_directory n) w of
        (Inl err, w1) \<Rightarrow> (Inl err, w1)
      | (Inr u, w1) \<Rightarrow> makedirs (network_directory_out n) w1)"

text \<open>The directories these two calls make sure of.\<close>

definition network_dirs :: "int \<Rightarrow> string set" where
  "network_dirs n =
     set (ancestors (network_directory n)) \<union> {network_directory n}
     \<union> set (ancestors (network_directory_out n)) \<union> {network_directory_out n}"

section \<open>\<^verbatim>\<open>single_all_features\<close>, \<^verbatim>\<open>discrete\<close>, \<^verbatim>\<open>all\<close>\<close>

text \<open>
  The loop of \<^verbatim>\<open>single_all_features\<close> (lines 126 to 128). Each iteration prints its
  heading and calls \<^verbatim>\<open>single(network=network, feature_set=f)\<close>: the other three
  parameters of \<^verbatim>\<open>single\<close> take their defaults. An exception leaves the loop.
\<close>

fun run_feature_sets :: "ext \<Rightarrow> int \<Rightarrow> string list \<Rightarrow> world \<Rightarrow> (error + unit) \<times> world" where
  "run_feature_sets e network [] w = (Inr (), w)"
| "run_feature_sets e network (f # fs) w =
     (case single e network ''LogisticRegression'' f 42 (- 1)
             (print (''network '' @ str_int network @ '', feature '' @ f) w) of
        (Inl err, w') \<Rightarrow> (Inl err, w')
      | (Inr u, w') \<Rightarrow> run_feature_sets e network fs w')"

definition single_all_features :: "ext \<Rightarrow> int \<Rightarrow> string \<Rightarrow> int \<Rightarrow> int \<Rightarrow> world
    \<Rightarrow> (error + unit) \<times> world" where
  "single_all_features e network clf random_state n_jobs w =
     run_feature_sets e network feature_sets w"

text \<open>
  \<^verbatim>\<open>discrete\<close> (lines 110 to 117). The body of the inner loop is the \<^verbatim>\<open>try\<close> with its
  bare \<^verbatim>\<open>except\<close>, which catches every exception and prints the diagnostic.
\<close>

definition discrete_ids :: "int list" where
  "discrete_ids = [18, 20, 21, 9, 4, 8, 24, 16, 11, 10]"

definition discrete_unit :: "ext \<Rightarrow> int \<Rightarrow> string \<Rightarrow> world \<Rightarrow> world" where
  "discrete_unit e i f w =
     (case single e i ''LogisticRegression'' f 42 (- 1) w of
        (Inl err, w') \<Rightarrow>
          print (''COULD NOT EXTRACT FEATURES NETWORK ID '' @ str_int i @ '', FEATURES '' @ f) w'
      | (Inr u, w') \<Rightarrow> w')"

definition discrete :: "ext \<Rightarrow> string list \<Rightarrow> world \<Rightarrow> (error + unit) \<times> world" where
  "discrete e feature_set w =
     (Inr (), fold (\<lambda>i. fold (\<lambda>f. discrete_unit e i f) feature_set) discrete_ids w)"

text \<open>
  \<^verbatim>\<open>all\<close>, lines 161 to 165: the networks it hands to the process pool or to the
  sequential loop. \<^verbatim>\<open>np.arange(1, 31)\<close> is half-open, as \<open>[1..<31]\<close> is.
\<close>

definition all_networks :: "int option \<Rightarrow> int list" where
  "all_networks network =
     (case network of
        None \<Rightarrow> filter (\<lambda>n. n \<notin> set [5, 15, 17, 26, 27]) (map int [1..<31])
      | Some n \<Rightarrow> [n])"

section \<open>Sample libraries and worlds\<close>

text \<open>
  A library in which every call succeeds: a features directory with one static file and
  two node-activity files, four samples, a score of one half.
\<close>

definition ext_sample :: ext where
  "ext_sample =
     \<lparr>scandir = (\<lambda>fs d. [''aa.npy'', ''na_x.npy'', ''na_x_q100.npy'']),
      load_features = (\<lambda>fs sel. Inr (map (\<lambda>(name, path). (name, [1, 2, 3, 4])) sel)),
      read_labels = (\<lambda>fs p. Inr [0, 1, 0, 1]),
      train_test_split = (\<lambda>X y random_state. Inr (X, X, y, y)),
      fit_predict_proba = (\<lambda>pipe eval_metric sp. Inr [1 / 4, 3 / 4, 1 / 4, 3 / 4]),
      roc_auc_score = (\<lambda>y_true y_score. Inr (1 / 2)),
      str_float = (\<lambda>auc. ''0.5'')\<rparr>"

text \<open>An empty disk, and a disk that holds the data of network 1.\<close>

definition world_empty :: world where
  "world_empty = \<lparr>dirs = {}, files = (\<lambda>p. None), readonly = {}, stdout = [], calls = []\<rparr>"

definition world_network1 :: world where
  "world_network1 =
     \<lparr>dirs = {''/data'', ''/data/s1620444'', ''/data/s1620444/01'',
              ''/data/s1620444/01/features''},
      files = [''/data/s1620444/01/samples.pkl'' \<mapsto> ''labels''],
      readonly = {}, stdout = [], calls = []\<rparr>"

text \<open>A disk where network 3 has a features directory but no label file.\<close>

definition world_network3 :: world where
  "world_network3 =
     \<lparr>dirs = {''/data'', ''/data/s1620444'', ''/data/s1620444/03'',
              ''/data/s1620444/03/features''},
      files = (\<lambda>p. None), readonly = {}, stdout = [], calls = []\<rparr>"

text \<open>
  A disk where a regular file stands at the path of network 5, and one where the data
  directory is not writable.
\<close>

definition world_blocked :: world where
  "world_blocked =
     \<lparr>dirs = {''/data'', ''/data/s1620444''},
      files = [''/data/s1620444/05'' \<mapsto> ''text''],
      readonly = {}, stdout = [], calls = []\<rparr>"

definition world_readonly :: world where
  "world_readonly =
     \<lparr>dirs = {''/data'', ''/data/s1620444''},
      files = (\<lambda>p. None),
      readonly = {''/data/s1620444''}, stdout = [], calls = []\<rparr>"

section \<open>Effects of the basic operations\<close>

lemma print_simps [simp]:
  "files (print s w) = files w"
  "dirs (print s w) = dirs w"
  "readonly (print s w) = readonly w"
  "calls (print s w) = calls w"
  "stdout (print s w) = stdout w @ [s]"
  by (simp_all add: print_def)

lemma call_simps [simp]:
  "files (call c w) = files w"
  "dirs (call c w) = dirs w"
  "readonly (call c w) = readonly w"
  "stdout (call c w) = stdout w"
  "calls (call c w) = calls w @ [c]"
  by (simp_all add: call_def)

lemma fold_print_simps [simp]:
  "files (fold print xs w) = files w"
  "dirs (fold print xs w) = dirs w"
  "readonly (fold print xs w) = readonly w"
  "calls (fold print xs w) = calls w"
  "stdout (fold print xs w) = stdout w @ xs"
  by (induction xs arbitrary: w) simp_all

lemma isfile_simps [simp]:
  "isfile (print s w) q = isfile w q"
  "isfile (call c w) q = isfile w q"
  by (simp_all add: isfile_def)

lemma isdir_simps [simp]:
  "isdir (print s w) q = isdir w q"
  "isdir (call c w) q = isdir w q"
  by (simp_all add: isdir_def)

text \<open>
  \<^verbatim>\<open>os.makedirs\<close> touches directories only, never removes one, and creates none but the
  components of its path; when it returns, they all exist; when they all exist already,
  it returns and changes nothing.
\<close>

lemma mkdirs_frame:
  "mkdirs parent ds w = (r, w') \<Longrightarrow>
     files w' = files w \<and> readonly w' = readonly w \<and> stdout w' = stdout w
     \<and> calls w' = calls w \<and> dirs w \<subseteq> dirs w' \<and> dirs w' \<subseteq> dirs w \<union> set ds"
proof (induction ds arbitrary: parent w)
  case Nil
  then show ?case by simp
next
  case (Cons d ds)
  show ?case
  proof (cases "isdir w d")
    case True
    with Cons.prems have "mkdirs d ds w = (r, w')" by simp
    from Cons.IH [OF this] show ?thesis by auto
  next
    case False
    show ?thesis
    proof (cases "isfile w d \<or> parent \<in> readonly w")
      case True
      with Cons.prems False have "w' = w" by (auto split: if_splits)
      then show ?thesis by auto
    next
      case stop: False
      with Cons.prems False
      have "mkdirs d ds (w\<lparr>dirs := insert d (dirs w)\<rparr>) = (r, w')" by simp
      from Cons.IH [OF this] show ?thesis by auto
    qed
  qed
qed

lemma mkdirs_success:
  "mkdirs parent ds w = (Inr (), w') \<Longrightarrow> dirs w' = dirs w \<union> set ds"
proof (induction ds arbitrary: parent w)
  case Nil
  then show ?case by simp
next
  case (Cons d ds)
  show ?case
  proof (cases "isdir w d")
    case True
    with Cons.prems have "mkdirs d ds w = (Inr (), w')" by simp
    from Cons.IH [OF this] True show ?thesis by (auto simp: isdir_def)
  next
    case False
    show ?thesis
    proof (cases "isfile w d \<or> parent \<in> readonly w")
      case True
      with Cons.prems False show ?thesis by (auto split: if_splits)
    next
      case stop: False
      with Cons.prems False
      have "mkdirs d ds (w\<lparr>dirs := insert d (dirs w)\<rparr>) = (Inr (), w')" by simp
      from Cons.IH [OF this] show ?thesis by auto
    qed
  qed
qed

lemma mkdirs_noop:
  "set ds \<subseteq> dirs w \<Longrightarrow> mkdirs parent ds w = (Inr (), w)"
  by (induction ds arbitrary: parent) (simp_all add: isdir_def)

lemma mkdirs_error:
  "mkdirs parent ds w = (Inl err, w') \<Longrightarrow>
     (\<exists>p. err = FileExistsError p) \<or> (\<exists>p. err = NotADirectoryError p)
     \<or> (\<exists>p. err = PermissionError p)"
proof (induction ds arbitrary: parent w)
  case Nil
  then show ?case by simp
next
  case (Cons d ds)
  show ?case
  proof (cases "isdir w d")
    case True
    with Cons.prems have "mkdirs d ds w = (Inl err, w')" by simp
    from Cons.IH [OF this] show ?thesis .
  next
    case False
    show ?thesis
    proof (cases "isfile w d \<or> parent \<in> readonly w")
      case True
      with Cons.prems False show ?thesis by (auto split: if_splits)
    next
      case stop: False
      with Cons.prems False
      have "mkdirs d ds (w\<lparr>dirs := insert d (dirs w)\<rparr>) = (Inl err, w')" by simp
      from Cons.IH [OF this] show ?thesis .
    qed
  qed
qed

lemma makedirs_frame:
  "makedirs p w = (r, w') \<Longrightarrow>
     files w' = files w \<and> readonly w' = readonly w \<and> stdout w' = stdout w
     \<and> calls w' = calls w \<and> dirs w \<subseteq> dirs w'
     \<and> dirs w' \<subseteq> dirs w \<union> set (ancestors p) \<union> {p}"
  using mkdirs_frame [of "root_of p" "ancestors p @ [p]" w r w']
  by (auto simp: makedirs_def)

lemma makedirs_success:
  "makedirs p w = (Inr (), w') \<Longrightarrow> dirs w' = dirs w \<union> set (ancestors p) \<union> {p}"
  using mkdirs_success [of "root_of p" "ancestors p @ [p]" w w']
  by (auto simp: makedirs_def)

lemma makedirs_noop:
  "set (ancestors p) \<union> {p} \<subseteq> dirs w \<Longrightarrow> makedirs p w = (Inr (), w)"
  using mkdirs_noop [of "ancestors p @ [p]" w "root_of p"]
  by (simp add: makedirs_def)

lemma makedirs_error:
  "makedirs p w = (Inl err, w') \<Longrightarrow>
     (\<exists>p. err = FileExistsError p) \<or> (\<exists>p. err = NotADirectoryError p)
     \<or> (\<exists>p. err = PermissionError p)"
  unfolding makedirs_def by (rule mkdirs_error)

text \<open>Writing a file changes that file only, and nothing when it raises.\<close>

lemma write_file_success:
  "write_file p s w = (Inr (), w') \<Longrightarrow>
     files w' = (files w)(p \<mapsto> s) \<and> dirs w' = dirs w \<and> readonly w' = readonly w
     \<and> stdout w' = stdout w \<and> calls w' = calls w"
  by (auto simp: write_file_def split: if_splits)

lemma write_file_error:
  "write_file p s w = (Inl err, w') \<Longrightarrow> w' = w"
  by (auto simp: write_file_def split: if_splits)

text \<open>\<^verbatim>\<open>predict\<close> reads the disk and never changes it.\<close>

lemma load_frame:
  "load e check fd sp w = (r, w') \<Longrightarrow>
     files w' = files w \<and> dirs w' = dirs w \<and> readonly w' = readonly w"
  by (auto simp: load_def Let_def split: sum.splits)

lemma evaluate_frame:
  "evaluate e X y clf rs nj w = (r, w') \<Longrightarrow>
     files w' = files w \<and> dirs w' = dirs w \<and> readonly w' = readonly w"
  by (auto simp: evaluate_def Let_def split: sum.splits)

text \<open>
  Once the identifier is recognized and the directory, its features and its labels are
  there, \<^verbatim>\<open>predict\<close> is the loading followed by the evaluation.
\<close>

lemma predict_reached:
  assumes "select_check fs = Inr check" and "isdir w d"
    and "isdir w (join d ''features'')" and "isfile w (join d ''samples.pkl'')"
  shows "predict e d fs clf rs nj w =
     (case load e check (join d ''features'') (join d ''samples.pkl'') w of
        (Inl err, w1) \<Rightarrow> (Inl err, w1)
      | (Inr (X, y), w1) \<Rightarrow>
          (case evaluate e X y clf rs nj w1 of
             (Inl err, w2) \<Rightarrow> (Inl err, w2)
           | (Inr auc, w2) \<Rightarrow> (Inr (Some auc), w2)))"
  using assms by (simp add: predict_def Let_def)

lemma predict_not_reached:
  assumes "select_check fs = Inr check"
    and "\<not> (isdir w d \<and> isdir w (join d ''features'') \<and> isfile w (join d ''samples.pkl''))"
  shows "predict e d fs clf rs nj w =
     (if \<not> isdir w d then (Inl (AssertionError ''directory'' d), w)
      else if \<not> isdir w (join d ''features'') then (Inr None, print ''returning none!'' w)
      else (Inl (AssertionError ''samples_filepath'' (join d ''samples.pkl'')), w))"
  using assms by (auto simp: predict_def Let_def)

lemma predict_frame:
  assumes "predict e d fs clf rs nj w = (r, w')"
  shows "files w' = files w \<and> dirs w' = dirs w \<and> readonly w' = readonly w"
proof (cases "select_check fs")
  case (Inl err)
  with assms show ?thesis by (simp add: predict_def)
next
  case (Inr check)
  show ?thesis
  proof (cases "isdir w d \<and> isdir w (join d ''features'') \<and> isfile w (join d ''samples.pkl'')")
    case False
    from assms predict_not_reached [OF Inr False, of e clf rs nj] show ?thesis
      by (auto split: if_splits)
  next
    case True
    obtain r1 w1 where l: "load e check (join d ''features'') (join d ''samples.pkl'') w = (r1, w1)"
      by (cases "load e check (join d ''features'') (join d ''samples.pkl'') w")
    note f1 = load_frame [OF l]
    from True have p: "predict e d fs clf rs nj w =
     (case load e check (join d ''features'') (join d ''samples.pkl'') w of
        (Inl err, w1) \<Rightarrow> (Inl err, w1)
      | (Inr (X, y), w1) \<Rightarrow>
          (case evaluate e X y clf rs nj w1 of
             (Inl err, w2) \<Rightarrow> (Inl err, w2)
           | (Inr auc, w2) \<Rightarrow> (Inr (Some auc), w2)))"
      by (intro predict_reached [OF Inr]) simp_all
    show ?thesis
    proof (cases r1)
      case (Inl err)
      with assms p l f1 show ?thesis by simp
    next
      case (Inr Xy)
      obtain X y where Xy: "Xy = (X, y)" by (cases Xy)
      obtain r2 w2 where ev: "evaluate e X y clf rs nj w1 = (r2, w2)"
        by (cases "evaluate e X y clf rs nj w1")
      note f2 = evaluate_frame [OF ev]
      from assms p l Inr Xy ev f1 f2 show ?thesis
        by (cases r2) auto
    qed
  qed
qed

text \<open>
  The exceptions of each stage: a library's exception from the loading, a library's
  exception or the invalid classifier from the evaluation, the unrecognized identifier
  from the selector. The assertion on the directory fails only where the directory is
  missing.
\<close>

lemma load_error:
  "load e check fd sp w = (Inl err, w') \<Longrightarrow> \<exists>m. err = ExternalError m"
  by (auto simp: load_def Let_def split: sum.splits)

lemma evaluate_error:
  "evaluate e X y clf rs nj w = (Inl err, w')
     \<Longrightarrow> (\<exists>m. err = ExternalError m) \<or> (\<exists>m. err = Exception m)"
  by (auto simp: evaluate_def make_estimator_def Let_def split: sum.splits if_splits)

lemma select_check_error:
  "select_check fs = Inl err \<Longrightarrow> \<exists>m. err = Exception m"
  by (auto simp: select_check_def split: if_splits)

lemma select_check_unrecognized:
  "feature_set \<notin> set feature_sets
     \<Longrightarrow> select_check feature_set = Inl (Exception (feature_set @ '' not recognized''))"
  by (simp add: feature_sets_def select_check_def)

lemma select_check_recognized:
  "feature_set \<in> set feature_sets \<Longrightarrow> \<exists>check. select_check feature_set = Inr check"
  by (auto simp: feature_sets_def select_check_def)

lemma predict_assert_directory:
  assumes "predict e d fs clf rs nj w = (Inl (AssertionError ''directory'' x), w')"
  shows "\<not> isdir w d"
proof
  assume d: "isdir w d"
  show False
  proof (cases "select_check fs")
    case (Inl err)
    with assms select_check_error [OF Inl] show False by (auto simp: predict_def)
  next
    case (Inr check)
    show False
    proof (cases "isdir w (join d ''features'') \<and> isfile w (join d ''samples.pkl'')")
      case False
      with assms Inr d show False
        by (auto simp: predict_def Let_def split: if_splits)
    next
      case True
      obtain r1 w1 where l: "load e check (join d ''features'') (join d ''samples.pkl'') w = (r1, w1)"
        by (cases "load e check (join d ''features'') (join d ''samples.pkl'') w")
      show False
      proof (cases r1)
        case (Inl err)
        with assms Inr True l d load_error [OF l [unfolded Inl]] show False
          by (auto simp: predict_def Let_def)
      next
        case (Inr Xy)
        obtain X y where Xy: "Xy = (X, y)" by (cases Xy)
        obtain r2 w2 where ev: "evaluate e X y clf rs nj w1 = (r2, w2)"
          by (cases "evaluate e X y clf rs nj w1")
        show False
        proof (cases r2)
          case (Inl err)
          with assms \<open>select_check fs = Inr check\<close> True l Inr Xy ev d
            evaluate_error [OF ev [unfolded Inl]]
          show False by (auto simp: predict_def Let_def)
        next
          case (Inr auc)
          with assms \<open>select_check fs = Inr check\<close> True l \<open>r1 = Inr Xy\<close> Xy ev d
          show False by (auto simp: predict_def Let_def)
        qed
      qed
    qed
  qed
qed

text \<open>
  The calls into the libraries. The loading fits nothing. The evaluation fits at most
  once, with the estimator of lines 78 to 93 and with \<^verbatim>\<open>eval_metric\<close> for xgboost only;
  a score it returns is the score of the probabilities that this fit predicted.
\<close>

lemma load_calls:
  "load e check fd sp w = (r, w') \<Longrightarrow>
     \<exists>cs. calls w' = calls w @ cs \<and> (\<forall>pipe m. Fit pipe m \<notin> set cs)"
  by (auto simp: load_def Let_def split: sum.splits)

lemma evaluate_calls:
  "evaluate e X y clf rs nj w = (r, w') \<Longrightarrow>
     \<exists>cs. calls w' = calls w @ cs
       \<and> (\<forall>pipe m. Fit pipe m \<in> set cs \<longrightarrow>
             make_estimator clf rs nj = Inr pipe
             \<and> m = (if clf = ''XGBoost'' then Some ''logloss'' else None))
       \<and> (\<forall>auc. r = Inr auc \<longrightarrow>
             (\<exists>pipe sp proba. make_estimator clf rs nj = Inr pipe
                \<and> cs = [Train_test_split rs,
                        Fit pipe (if clf = ''XGBoost'' then Some ''logloss'' else None),
                        Roc_auc_score]
                \<and> train_test_split e X y rs = Inr sp
                \<and> fit_predict_proba e pipe
                      (if clf = ''XGBoost'' then Some ''logloss'' else None) sp = Inr proba
                \<and> roc_auc_score e (snd (snd (snd sp))) proba = Inr auc))"
  by (auto simp: evaluate_def Let_def split: sum.splits)

lemma predict_calls:
  assumes "predict e d fs clf rs nj w = (r, w')"
  shows "\<exists>cs. calls w' = calls w @ cs
       \<and> (\<forall>pipe m. Fit pipe m \<in> set cs \<longrightarrow>
             make_estimator clf rs nj = Inr pipe
             \<and> m = (if clf = ''XGBoost'' then Some ''logloss'' else None))
       \<and> (\<forall>auc. r = Inr (Some auc) \<longrightarrow>
             (\<exists>pipe sp proba. make_estimator clf rs nj = Inr pipe
                \<and> Fit pipe (if clf = ''XGBoost'' then Some ''logloss'' else None) \<in> set cs
                \<and> fit_predict_proba e pipe
                      (if clf = ''XGBoost'' then Some ''logloss'' else None) sp = Inr proba
                \<and> roc_auc_score e (snd (snd (snd sp))) proba = Inr auc))"
proof (cases "select_check fs")
  case (Inl err)
  with assms have "r = Inl err \<and> w' = w" by (simp add: predict_def)
  then have "calls w' = calls w @ []" by simp
  with \<open>r = Inl err \<and> w' = w\<close> show ?thesis by fastforce
next
  case (Inr check)
  show ?thesis
  proof (cases "isdir w d \<and> isdir w (join d ''features'') \<and> isfile w (join d ''samples.pkl'')")
    case False
    from assms predict_not_reached [OF Inr False, of e clf rs nj]
    have "calls w' = calls w @ [] \<and> (\<forall>auc. r \<noteq> Inr (Some auc))"
      by (auto split: if_splits)
    then show ?thesis by fastforce
  next
    case True
    obtain r1 w1 where l: "load e check (join d ''features'') (join d ''samples.pkl'') w = (r1, w1)"
      by (cases "load e check (join d ''features'') (join d ''samples.pkl'') w")
    from load_calls [OF l] obtain cs1 where all1: "calls w1 = calls w @ cs1
      \<and> (\<forall>pipe m. Fit pipe m \<notin> set cs1)" ..
    from all1 have c1: "calls w1 = calls w @ cs1" by (rule conjunct1)
    from all1 have n1: "\<forall>pipe m. Fit pipe m \<notin> set cs1" by (rule conjunct2)
    from True have p: "predict e d fs clf rs nj w =
     (case load e check (join d ''features'') (join d ''samples.pkl'') w of
        (Inl err, w1) \<Rightarrow> (Inl err, w1)
      | (Inr (X, y), w1) \<Rightarrow>
          (case evaluate e X y clf rs nj w1 of
             (Inl err, w2) \<Rightarrow> (Inl err, w2)
           | (Inr auc, w2) \<Rightarrow> (Inr (Some auc), w2)))"
      by (intro predict_reached [OF Inr]) simp_all
    show ?thesis
    proof (cases r1)
      case (Inl err)
      with assms p l have "r = Inl err \<and> w' = w1" by simp
      with c1 n1 show ?thesis by fastforce
    next
      case (Inr Xy)
      obtain X y where Xy: "Xy = (X, y)" by (cases Xy)
      obtain r2 w2 where ev: "evaluate e X y clf rs nj w1 = (r2, w2)"
        by (cases "evaluate e X y clf rs nj w1")
      from evaluate_calls [OF ev] obtain cs2 where all2: "calls w2 = calls w1 @ cs2
        \<and> (\<forall>pipe m. Fit pipe m \<in> set cs2 \<longrightarrow>
             make_estimator clf rs nj = Inr pipe
             \<and> m = (if clf = ''XGBoost'' then Some ''logloss'' else None))
        \<and> (\<forall>auc. r2 = Inr auc \<longrightarrow>
             (\<exists>pipe sp proba. make_estimator clf rs nj = Inr pipe
                \<and> cs2 = [Train_test_split rs,
                        Fit pipe (if clf = ''XGBoost'' then Some ''logloss'' else None),
                        Roc_auc_score]
                \<and> train_test_split e X y rs = Inr sp
                \<and> fit_predict_proba e pipe
                      (if clf = ''XGBoost'' then Some ''logloss'' else None) sp = Inr proba
                \<and> roc_auc_score e (snd (snd (snd sp))) proba = Inr auc))" ..
      from all2 have c2: "calls w2 = calls w1 @ cs2" by (rule conjunct1)
      from all2 have f2: "\<forall>pipe m. Fit pipe m \<in> set cs2 \<longrightarrow>
             make_estimator clf rs nj = Inr pipe
             \<and> m = (if clf = ''XGBoost'' then Some ''logloss'' else None)"
        by (rule conjunct2 [THEN conjunct1])
      from all2 have s2: "\<forall>auc. r2 = Inr auc \<longrightarrow>
             (\<exists>pipe sp proba. make_estimator clf rs nj = Inr pipe
                \<and> cs2 = [Train_test_split rs,
                        Fit pipe (if clf = ''XGBoost'' then Some ''logloss'' else None),
                        Roc_auc_score]
                \<and> train_test_split e X y rs = Inr sp
                \<and> fit_predict_proba e pipe
                      (if clf = ''XGBoost'' then Some ''logloss'' else None) sp = Inr proba
                \<and> roc_auc_score e (snd (snd (snd sp))) proba = Inr auc)"
        by (rule conjunct2 [THEN conjunct2])
      from assms p l Inr Xy ev
      have rw: "w' = w2 \<and> (\<forall>auc. r = Inr (Some auc) \<longrightarrow> r2 = Inr auc)"
        by (cases r2) auto
      have c: "calls w' = calls w @ (cs1 @ cs2)" using rw c1 c2 by simp
      have a: "\<forall>pipe m. Fit pipe m \<in> set (cs1 @ cs2) \<longrightarrow>
             make_estimator clf rs nj = Inr pipe
             \<and> m = (if clf = ''XGBoost'' then Some ''logloss'' else None)"
        using n1 f2 by auto
      have b: "\<forall>auc. r = Inr (Some auc) \<longrightarrow>
             (\<exists>pipe sp proba. make_estimator clf rs nj = Inr pipe
                \<and> Fit pipe (if clf = ''XGBoost'' then Some ''logloss'' else None)
                     \<in> set (cs1 @ cs2)
                \<and> fit_predict_proba e pipe
                      (if clf = ''XGBoost'' then Some ''logloss'' else None) sp = Inr proba
                \<and> roc_auc_score e (snd (snd (snd sp))) proba = Inr auc)"
      proof (intro allI impI)
        fix auc assume "r = Inr (Some auc)"
        with rw have "r2 = Inr auc" by blast
        with s2 obtain pipe sp proba where "make_estimator clf rs nj = Inr pipe"
          and "cs2 = [Train_test_split rs,
                        Fit pipe (if clf = ''XGBoost'' then Some ''logloss'' else None),
                        Roc_auc_score]"
          and "fit_predict_proba e pipe
                      (if clf = ''XGBoost'' then Some ''logloss'' else None) sp = Inr proba"
          and "roc_auc_score e (snd (snd (snd sp))) proba = Inr auc" by blast
        then show "\<exists>pipe sp proba. make_estimator clf rs nj = Inr pipe
                \<and> Fit pipe (if clf = ''XGBoost'' then Some ''logloss'' else None)
                     \<in> set (cs1 @ cs2)
                \<and> fit_predict_proba e pipe
                      (if clf = ''XGBoost'' then Some ''logloss'' else None) sp = Inr proba
                \<and> roc_auc_score e (snd (snd (snd sp))) proba = Inr auc"
          by (intro exI [of _ pipe] exI [of _ sp] exI [of _ proba]) simp
      qed
      from c a b show ?thesis by blast
    qed
  qed
qed

text \<open>The "no data" return: exactly when the features directory is missing.\<close>

lemma predict_None:
  "select_check fs = Inr check \<Longrightarrow> isdir w d \<Longrightarrow> \<not> isdir w (join d ''features'')
     \<Longrightarrow> predict e d fs clf rs nj w = (Inr None, print ''returning none!'' w)"
  by (simp add: predict_def Let_def)

lemma predict_NoneD:
  assumes "predict e d fs clf rs nj w = (Inr None, w')"
  shows "(\<exists>check. select_check fs = Inr check) \<and> isdir w d \<and> \<not> isdir w (join d ''features'')
     \<and> w' = print ''returning none!'' w"
  using assms
  by (auto simp: predict_def Let_def split: sum.splits if_splits prod.splits)

section \<open>Paths of a network\<close>

text \<open>
  The text of a network number ends with a digit, so \<^verbatim>\<open>os.path.join\<close> adds a slash;
  the features directory is none of the directories that \<^verbatim>\<open>single\<close> creates.
\<close>

lemma digit_char_not_slash: "d < 10 \<Longrightarrow> digit_char d \<noteq> CHR ''/''"
proof -
  assume "d < 10"
  then have "d \<in> {0, 1, 2, 3, 4, 5, 6, 7, 8, 9}" by auto
  then show ?thesis by (auto simp: digit_char_def)
qed

lemma str_nat_last: "str_nat n \<noteq> [] \<and> last (str_nat n) = digit_char (n mod 10)"
  by (subst (1 2) str_nat.simps) simp

lemma format_02_last: "format_02 n \<noteq> [] \<and> last (format_02 n) \<noteq> CHR ''/''"
  using str_nat_last [of "nat n"] str_nat_last [of "nat (- n)"]
    digit_char_not_slash [of "nat n mod 10"] digit_char_not_slash [of "nat (- n) mod 10"]
  by (simp add: format_02_def str_int_def Let_def)

lemma join_network_features:
  "join (network_directory n) ''features'' = network_directory n @ ''/features''"
  using format_02_last [of n]
  by (simp add: join_def startswith_def network_directory_def)

lemma network_directory_out_eq:
  "network_directory_out n = network_directory n @ ''/properties''"
  by (simp add: network_directory_out_def network_directory_def)

lemma ancestors_from_take:
  "x \<in> set (ancestors_from acc cs) \<Longrightarrow> \<exists>k. x = acc @ take k cs"
proof (induction cs arbitrary: acc)
  case Nil
  then show ?case by simp
next
  case (Cons c cs)
  from Cons.prems have "x = acc \<or> x \<in> set (ancestors_from (acc @ [c]) cs)"
    by (auto split: if_splits)
  then show ?case
  proof
    assume "x = acc"
    then have "x = acc @ take 0 (c # cs)" by simp
    then show ?thesis by blast
  next
    assume "x \<in> set (ancestors_from (acc @ [c]) cs)"
    from Cons.IH [OF this] obtain k where "x = (acc @ [c]) @ take k cs" by blast
    then have "x = acc @ take (Suc k) (c # cs)" by simp
    then show ?thesis by blast
  qed
qed

lemma ancestors_startswith: "x \<in> set (ancestors p) \<Longrightarrow> startswith p x"
  by (auto simp: ancestors_def startswith_def min_def dest!: ancestors_from_take)

lemma features_not_created:
  assumes "dirs w' \<subseteq> dirs w \<union> set (ancestors (network_directory n)) \<union> {network_directory n}
        \<union> set (ancestors (network_directory_out n)) \<union> {network_directory_out n}"
    and "dirs w \<subseteq> dirs w'"
  shows "isdir w' (join (network_directory n) ''features'')
        = isdir w (join (network_directory n) ''features'')"
proof -
  let ?f = "network_directory n @ ''/features''"
  have 1: "?f \<notin> set (ancestors (network_directory n))"
    using ancestors_startswith [of ?f "network_directory n"] by (auto simp: startswith_def)
  have 2: "?f \<notin> set (ancestors (network_directory_out n))"
    using ancestors_startswith [of ?f "network_directory_out n"]
    by (auto simp: startswith_def network_directory_out_eq)
  have 3: "?f \<noteq> network_directory n" "?f \<noteq> network_directory_out n"
    by (simp_all add: network_directory_out_eq)
  from assms 1 2 3 have "?f \<in> dirs w' \<longleftrightarrow> ?f \<in> dirs w" by blast
  then show ?thesis
    by (simp add: isdir_def join_network_features)
qed

section \<open>\<^verbatim>\<open>single\<close>, case by case\<close>

text \<open>The two \<^verbatim>\<open>os.makedirs\<close> calls together.\<close>

lemma prepare_frame:
  assumes "prepare n w = (r, w')"
  shows "files w' = files w \<and> readonly w' = readonly w \<and> stdout w' = stdout w
     \<and> calls w' = calls w \<and> dirs w \<subseteq> dirs w' \<and> dirs w' \<subseteq> dirs w \<union> network_dirs n"
proof -
  obtain r1 w1 where 1: "makedirs (network_directory n) w = (r1, w1)"
    by (cases "makedirs (network_directory n) w")
  note f1 = makedirs_frame [OF 1]
  show ?thesis
  proof (cases r1)
    case (Inl err)
    with assms 1 have "w' = w1" by (simp add: prepare_def)
    with f1 show ?thesis by (auto simp: network_dirs_def)
  next
    case (Inr u)
    with assms 1 have 2: "makedirs (network_directory_out n) w1 = (r, w')"
      by (simp add: prepare_def)
    note f2 = makedirs_frame [OF 2]
    from f1 f2 show ?thesis by (auto simp: network_dirs_def)
  qed
qed

lemma prepare_success:
  assumes "prepare n w = (Inr (), w')"
  shows "dirs w' = dirs w \<union> network_dirs n"
proof -
  obtain r1 w1 where 1: "makedirs (network_directory n) w = (r1, w1)"
    by (cases "makedirs (network_directory n) w")
  show ?thesis
  proof (cases r1)
    case (Inl err)
    with assms 1 show ?thesis by (simp add: prepare_def)
  next
    case (Inr u)
    with assms 1 have 2: "makedirs (network_directory_out n) w1 = (Inr (), w')"
      by (simp add: prepare_def)
    from 1 Inr have "makedirs (network_directory n) w = (Inr (), w1)" by simp
    from makedirs_success [OF this] makedirs_success [OF 2] show ?thesis
      by (auto simp: network_dirs_def)
  qed
qed

lemma prepare_noop:
  assumes "network_dirs n \<subseteq> dirs w"
  shows "prepare n w = (Inr (), w)"
proof -
  from assms have "makedirs (network_directory n) w = (Inr (), w)"
    by (intro makedirs_noop) (auto simp: network_dirs_def)
  moreover from assms have "makedirs (network_directory_out n) w = (Inr (), w)"
    by (intro makedirs_noop) (auto simp: network_dirs_def)
  ultimately show ?thesis by (simp add: prepare_def)
qed

lemma prepare_again:
  assumes "prepare n w = (Inr (), w0)" and "dirs w1 = dirs w0"
  shows "prepare n w1 = (Inr (), w1)"
  using prepare_success [OF assms(1)] assms(2) by (intro prepare_noop) simp

lemma prepare_error:
  assumes "prepare n w = (Inl err, w')"
  shows "(\<exists>p. err = FileExistsError p) \<or> (\<exists>p. err = NotADirectoryError p)
     \<or> (\<exists>p. err = PermissionError p)"
proof -
  obtain r1 w1 where 1: "makedirs (network_directory n) w = (r1, w1)"
    by (cases "makedirs (network_directory n) w")
  show ?thesis
  proof (cases r1)
    case (Inl err1)
    with assms 1 have "makedirs (network_directory n) w = (Inl err, w1)"
      by (simp add: prepare_def)
    then show ?thesis by (rule makedirs_error)
  next
    case (Inr u)
    with assms 1 have "makedirs (network_directory_out n) w1 = (Inl err, w')"
      by (simp add: prepare_def)
    then show ?thesis by (rule makedirs_error)
  qed
qed

lemma prepare_isfile:
  "prepare n w = (r, w') \<Longrightarrow> isfile w' p = isfile w p"
  using prepare_frame [of n w r w'] by (simp add: isfile_def)

lemma prepare_features:
  assumes "prepare n w = (r, w')"
  shows "isdir w' (join (network_directory n) ''features'')
        = isdir w (join (network_directory n) ''features'')"
proof (rule features_not_created)
  from prepare_frame [OF assms]
  show "dirs w' \<subseteq> dirs w \<union> set (ancestors (network_directory n)) \<union> {network_directory n}
        \<union> set (ancestors (network_directory_out n)) \<union> {network_directory_out n}"
    by (auto simp: network_dirs_def)
  from prepare_frame [OF assms] show "dirs w \<subseteq> dirs w'" by simp
qed

lemma prepare_isdir:
  assumes "prepare n w = (Inr (), w')"
  shows "isdir w' (network_directory n)" and "isdir w' (network_directory_out n)"
  using prepare_success [OF assms] by (auto simp: isdir_def network_dirs_def)

text \<open>\<^verbatim>\<open>single\<close> is these two calls followed by the cache check and the evaluation.\<close>

lemma single_prepare:
  "single e n clf fs rs nj w =
    (case prepare n w of
       (Inl err, w2) \<Rightarrow> (Inl err, w2)
     | (Inr u, w2) \<Rightarrow>
         if isfile w2 (filepath_out n fs clf)
         then (Inr (), print ''this is a file'' w2)
         else
           (case predict e (network_directory n) fs clf rs nj w2 of
              (Inl err, w3) \<Rightarrow> (Inl err, w3)
            | (Inr None, w3) \<Rightarrow> (Inr (), print ''None'' w3)
            | (Inr (Some auc), w3) \<Rightarrow>
                write_file (filepath_out n fs clf) (str_float e auc)
                  (print (str_float e auc) w3)))"
  by (simp add: single_def prepare_def Let_def split: prod.splits sum.splits)

lemma single_prepare_failed:
  "prepare n w = (Inl err, w2) \<Longrightarrow> single e n clf fs rs nj w = (Inl err, w2)"
  by (simp add: single_prepare)

lemma single_prepare_ok:
  assumes "prepare n w = (Inr (), w2)"
  shows "single e n clf fs rs nj w =
    (if isfile w (filepath_out n fs clf)
     then (Inr (), print ''this is a file'' w2)
     else
       (case predict e (network_directory n) fs clf rs nj w2 of
          (Inl err, w3) \<Rightarrow> (Inl err, w3)
        | (Inr None, w3) \<Rightarrow> (Inr (), print ''None'' w3)
        | (Inr (Some auc), w3) \<Rightarrow>
            write_file (filepath_out n fs clf) (str_float e auc)
              (print (str_float e auc) w3)))"
  using assms prepare_isfile [OF assms] by (simp add: single_prepare)

lemma single_cached:
  "prepare n w = (Inr (), w2) \<Longrightarrow> isfile w (filepath_out n fs clf) \<Longrightarrow>
     single e n clf fs rs nj w = (Inr (), print ''this is a file'' w2)"
  by (simp add: single_prepare_ok)

text \<open>With the artifact in place, no outcome of \<^verbatim>\<open>single\<close> calls a library or touches a file.\<close>

lemma single_cached_frame:
  assumes "isfile w (filepath_out n fs clf)" and "single e n clf fs rs nj w = (r, w')"
  shows "calls w' = calls w \<and> files w' = files w"
proof -
  obtain rp w2 where p: "prepare n w = (rp, w2)" by (cases "prepare n w")
  note f = prepare_frame [OF p]
  show ?thesis
  proof (cases rp)
    case (Inl err)
    with p assms(2) have "w' = w2" by (simp add: single_prepare_failed)
    with f show ?thesis by simp
  next
    case (Inr u)
    with p have "prepare n w = (Inr (), w2)" by simp
    from single_cached [OF this assms(1), of e rs nj] assms(2)
    have "w' = print ''this is a file'' w2" by simp
    with f show ?thesis by simp
  qed
qed

text \<open>An unrecognized identifier: whatever the disk holds, no call and no file.\<close>

lemma single_unrecognized:
  assumes "feature_set \<notin> set feature_sets"
  shows "single e n clf feature_set rs nj w =
     (case prepare n w of
        (Inl err, w2) \<Rightarrow> (Inl err, w2)
      | (Inr u, w2) \<Rightarrow>
          if isfile w (filepath_out n feature_set clf)
          then (Inr (), print ''this is a file'' w2)
          else (Inl (Exception (feature_set @ '' not recognized'')), w2))"
proof -
  obtain rp w2 where p: "prepare n w = (rp, w2)" by (cases "prepare n w")
  show ?thesis
  proof (cases rp)
    case (Inl err)
    with p show ?thesis by (simp add: single_prepare_failed)
  next
    case (Inr u)
    with p have ok: "prepare n w = (Inr (), w2)" by simp
    have "predict e (network_directory n) feature_set clf rs nj w2
        = (Inl (Exception (feature_set @ '' not recognized'')), w2)"
      using select_check_unrecognized [OF assms] by (simp add: predict_def)
    with ok show ?thesis by (simp add: single_prepare_ok [OF ok])
  qed
qed

text \<open>No features directory and no artifact: the "no data" return, nothing written.\<close>

lemma single_missing_features_check:
  assumes "select_check feature_set = Inr check"
    and "\<not> isdir w (join (network_directory n) ''features'')"
    and "\<not> isfile w (filepath_out n feature_set clf)"
    and "prepare n w = (Inr (), w2)"
  shows "single e n clf feature_set rs nj w
           = (Inr (), print ''None'' (print ''returning none!'' w2))"
proof -
  have "predict e (network_directory n) feature_set clf rs nj w2
          = (Inr None, print ''returning none!'' w2)"
    using assms(2) prepare_features [OF assms(4)] prepare_isdir(1) [OF assms(4)]
    by (intro predict_None [OF assms(1)]) simp_all
  with assms(3) show ?thesis by (simp add: single_prepare_ok [OF assms(4)])
qed

lemma single_missing_features_frame:
  assumes "select_check feature_set = Inr check"
    and "\<not> isdir w (join (network_directory n) ''features'')"
    and "\<not> isfile w (filepath_out n feature_set clf)"
    and "single e n clf feature_set rs nj w = (r, w')"
  shows "calls w' = calls w \<and> files w' = files w"
proof -
  obtain rp w2 where p: "prepare n w = (rp, w2)" by (cases "prepare n w")
  note f = prepare_frame [OF p]
  show ?thesis
  proof (cases rp)
    case (Inl err)
    with p assms(4) have "w' = w2" by (simp add: single_prepare_failed)
    with f show ?thesis by simp
  next
    case (Inr u)
    with p have "prepare n w = (Inr (), w2)" by simp
    from single_missing_features_check [OF assms(1-3) this, of e rs nj] assms(4)
    have "w' = print ''None'' (print ''returning none!'' w2)" by simp
    with f show ?thesis by simp
  qed
qed

text \<open>After an invocation that returned, the next one returns at once or finds no data.\<close>

lemma single_second_call:
  assumes "single e n clf fs rs nj w = (Inr (), w1)"
  shows "\<exists>w2. single e n clf fs rs nj w1 = (Inr (), w2)
           \<and> calls w2 = calls w1 \<and> files w2 = files w1"
proof -
  obtain rp w0 where p: "prepare n w = (rp, w0)" by (cases "prepare n w")
  have ok: "prepare n w = (Inr (), w0)"
  proof (cases rp)
    case (Inl err)
    with p assms show ?thesis by (simp add: single_prepare_failed)
  next
    case (Inr u)
    with p show ?thesis by simp
  qed
  note s = single_prepare_ok [OF ok, of e clf fs rs nj]
  show ?thesis
  proof (cases "isfile w (filepath_out n fs clf)")
    case True
    with assms s have w1: "w1 = print ''this is a file'' w0" by simp
    then have "dirs w1 = dirs w0" by simp
    from prepare_again [OF ok this] have ok1: "prepare n w1 = (Inr (), w1)" .
    from True prepare_isfile [OF ok] have "isfile w1 (filepath_out n fs clf)"
      by (simp add: w1)
    from single_cached [OF ok1 this] show ?thesis by simp
  next
    case False
    obtain r3 w3 where pr: "predict e (network_directory n) fs clf rs nj w0 = (r3, w3)"
      by (cases "predict e (network_directory n) fs clf rs nj w0")
    note pf = predict_frame [OF pr]
    show ?thesis
    proof (cases r3)
      case (Inl err)
      with assms False pr s show ?thesis by simp
    next
      case (Inr res)
      show ?thesis
      proof (cases res)
        case None
        from predict_NoneD [OF pr [unfolded Inr None]]
        obtain check where c: "select_check fs = Inr check"
          and nd: "\<not> isdir w0 (join (network_directory n) ''features'')"
          and w3: "w3 = print ''returning none!'' w0" by blast
        from assms False pr Inr None w3 s
        have w1: "w1 = print ''None'' (print ''returning none!'' w0)" by simp
        then have "dirs w1 = dirs w0" by simp
        from prepare_again [OF ok this] have ok1: "prepare n w1 = (Inr (), w1)" .
        have "\<not> isdir w1 (join (network_directory n) ''features'')"
          using nd by (simp add: w1)
        moreover have "\<not> isfile w1 (filepath_out n fs clf)"
          using False prepare_isfile [OF ok] by (simp add: w1)
        ultimately have "single e n clf fs rs nj w1
             = (Inr (), print ''None'' (print ''returning none!'' w1))"
          using ok1 by (intro single_missing_features_check [OF c])
        then show ?thesis by simp
      next
        case (Some auc)
        from assms False pr Inr Some s
        have "write_file (filepath_out n fs clf) (str_float e auc)
                   (print (str_float e auc) w3) = (Inr (), w1)" by simp
        from write_file_success [OF this]
        have "isfile w1 (filepath_out n fs clf)" and "dirs w1 = dirs w3"
          by (simp_all add: isfile_def)
        with pf have "dirs w1 = dirs w0" by simp
        from prepare_again [OF ok this] have ok1: "prepare n w1 = (Inr (), w1)" .
        from single_cached [OF ok1 \<open>isfile w1 (filepath_out n fs clf)\<close>] show ?thesis by simp
      qed
    qed
  qed
qed

text \<open>
  When the two calls succeeded, the directories are there at the end and the assertion
  on the directory has not failed.
\<close>

lemma single_dirs:
  assumes "prepare n w = (Inr (), w0)" and "single e n clf fs rs nj w = (r, w')"
  shows "dirs w' = dirs w0 \<and> r \<noteq> Inl (AssertionError ''directory'' x)"
proof -
  note s = single_prepare_ok [OF assms(1), of e clf fs rs nj]
  show ?thesis
  proof (cases "isfile w (filepath_out n fs clf)")
    case True
    with assms(2) s have "r = Inr () \<and> w' = print ''this is a file'' w0" by simp
    then show ?thesis by simp
  next
    case False
    obtain r3 w3 where p: "predict e (network_directory n) fs clf rs nj w0 = (r3, w3)"
      by (cases "predict e (network_directory n) fs clf rs nj w0")
    from predict_frame [OF p] have f: "dirs w3 = dirs w0" by blast
    show ?thesis
    proof (cases r3)
      case (Inl err)
      have "isdir w0 (network_directory n)" by (rule prepare_isdir(1) [OF assms(1)])
      with predict_assert_directory [of e "network_directory n" fs clf rs nj w0 x w3] p Inl
      have ne: "err \<noteq> AssertionError ''directory'' x" by blast
      from assms(2) False p Inl s have "r = Inl err \<and> w' = w3" by simp
      with ne f show ?thesis by simp
    next
      case (Inr res)
      show ?thesis
      proof (cases res)
        case None
        from assms(2) False p Inr None s have "r = Inr () \<and> w' = print ''None'' w3" by simp
        with f show ?thesis by simp
      next
        case (Some auc)
        from assms(2) False p Inr Some s
        have wr: "write_file (filepath_out n fs clf) (str_float e auc)
                       (print (str_float e auc) w3) = (r, w')" by simp
        show ?thesis
        proof (cases r)
          case (Inl err)
          from wr [unfolded Inl] have "w' = print (str_float e auc) w3"
            by (rule write_file_error)
          moreover from wr Inl have "err \<noteq> AssertionError ''directory'' x"
            by (auto simp: write_file_def split: if_splits)
          ultimately show ?thesis using f Inl by simp
        next
          case (Inr u)
          with wr have "write_file (filepath_out n fs clf) (str_float e auc)
                       (print (str_float e auc) w3) = (Inr (), w')" by simp
          from write_file_success [OF this] f Inr show ?thesis by simp
        qed
      qed
    qed
  qed
qed

section \<open>The loops\<close>

lemma fold_product:
  "fold (\<lambda>i. fold (\<lambda>f. g i f) fs) ids w = fold (\<lambda>(i, f). g i f) (List.product ids fs) w"
  by (induction ids arbitrary: w) (simp_all add: fold_map comp_def)

lemma run_feature_sets_append:
  "run_feature_sets e n (pre @ post) w =
     (case run_feature_sets e n pre w of
        (Inl err, w') \<Rightarrow> (Inl err, w')
      | (Inr u, w') \<Rightarrow> run_feature_sets e n post w')"
  by (induction pre arbitrary: w) (auto split: prod.splits sum.splits)

lemma single_all_features_arguments_unused:
  "single_all_features e n clf rs nj w = single_all_features e n clf' rs' nj' w"
  by (simp add: single_all_features_def)

lemma all_networks_enumerated: "all_networks None =
   [1, 2, 3, 4, 6, 7, 8, 9, 10, 11, 12, 13, 14, 16, 18, 19, 20, 21, 22, 23, 24, 25, 28, 29, 30]"
  by code_simp

text \<open>
  On a disk where no component of the two paths is a regular file and every directory
  is writable, the two \<^verbatim>\<open>os.makedirs\<close> calls succeed.
\<close>

lemma mkdirs_succeeds:
  "(\<forall>d \<in> set ds. isfile w d \<longrightarrow> isdir w d) \<Longrightarrow> readonly w = {}
     \<Longrightarrow> \<exists>w'. mkdirs parent ds w = (Inr (), w')"
proof (induction ds arbitrary: parent w)
  case Nil
  then show ?case by simp
next
  case (Cons d ds)
  show ?case
  proof (cases "isdir w d")
    case True
    with Cons.IH [of w d] Cons.prems show ?thesis by simp
  next
    case False
    let ?w = "w\<lparr>dirs := insert d (dirs w)\<rparr>"
    have "\<forall>d \<in> set ds. isfile ?w d \<longrightarrow> isdir ?w d"
      using Cons.prems(1) by (auto simp: isfile_def isdir_def)
    moreover have "readonly ?w = {}" using Cons.prems(2) by simp
    ultimately obtain w' where "mkdirs d ds ?w = (Inr (), w')"
      using Cons.IH [of ?w d] by blast
    with False Cons.prems show ?thesis by simp
  qed
qed

lemma prepare_succeeds:
  assumes "\<forall>d \<in> network_dirs n. isfile w d \<longrightarrow> isdir w d" and "readonly w = {}"
  shows "\<exists>w'. prepare n w = (Inr (), w')"
proof -
  have "\<forall>d \<in> set (ancestors (network_directory n) @ [network_directory n]).
          isfile w d \<longrightarrow> isdir w d"
    using assms(1) by (auto simp: network_dirs_def)
  then have "\<exists>w1. mkdirs (root_of (network_directory n))
      (ancestors (network_directory n) @ [network_directory n]) w = (Inr (), w1)"
    using assms(2) by (rule mkdirs_succeeds)
  then obtain w1 where 1: "makedirs (network_directory n) w = (Inr (), w1)"
    by (auto simp: makedirs_def)
  note f = makedirs_frame [OF 1]
  have "\<forall>d \<in> set (ancestors (network_directory_out n) @ [network_directory_out n]).
          isfile w1 d \<longrightarrow> isdir w1 d"
    using assms(1) f by (auto simp: network_dirs_def isfile_def isdir_def)
  moreover have "readonly w1 = {}" using f assms(2) by simp
  ultimately have "\<exists>w2. mkdirs (root_of (network_directory_out n))
      (ancestors (network_directory_out n) @ [network_directory_out n]) w1 = (Inr (), w2)"
    by (rule mkdirs_succeeds)
  then obtain w2 where "makedirs (network_directory_out n) w1 = (Inr (), w2)"
    by (auto simp: makedirs_def)
  with 1 show ?thesis by (simp add: prepare_def)
qed

section \<open>Properties of the feature selector\<close>

text \<open>
  C1. The predicate generated for \<^verbatim>\<open>I+II-A+III-A\<close> is true of every filename: its first
  and third disjuncts are each other's negation.
\<close>

theorem check_union_tautology:
  "\<exists>check. select_check ''I+II-A+III-A'' = Inr check \<and> (\<forall>x. check x)"
  by (auto simp: select_check_def)

theorem check_union_tautology_witness:
  "\<exists>check. select_check ''I+II-A+III-A'' = Inr check
     \<and> check ''na_x.npy'' \<and> check ''aa.npy'' \<and> check ''zz_q50.npy'' \<and> check ''''"
  using check_union_tautology by blast

text \<open>
  C9. For each of the six recognized identifiers a closure is generated (no
  configuration error), and on every filename the evaluation of its body, with Python's
  rules for \<^verbatim>\<open>in\<close>, \<^verbatim>\<open>startswith\<close>, \<^verbatim>\<open>not\<close>, \<^verbatim>\<open>and\<close> and \<^verbatim>\<open>or\<close>, raises nothing and
  returns a boolean: the value of the predicate that \<^verbatim>\<open>predict\<close> filters with.
\<close>

theorem check_total:
  "feature_set \<in> set feature_sets \<Longrightarrow>
     \<exists>body check. check_body feature_set = Inr body \<and> select_check feature_set = Inr check
       \<and> (\<forall>x. eval (PyStr x) body = Inr (PyBool (check x)))"
proof -
  assume "feature_set \<in> set feature_sets"
  then consider "feature_set = ''I''" | "feature_set = ''II-A''" | "feature_set = ''II-B''"
    | "feature_set = ''III-A''" | "feature_set = ''III-B''" | "feature_set = ''I+II-A+III-A''"
    by (auto simp: feature_sets_def)
  then show ?thesis
    by cases
      (simp_all add: check_body_def select_check_def py_in_def py_startswith_def
        static_names_def truthy_def)
qed

theorem check_total_witness:
  "''II-B'' \<in> set feature_sets
   \<and> (\<exists>body. check_body ''II-B'' = Inr body
         \<and> eval (PyStr ''cn_q100.npy'') body = Inr (PyBool True)
         \<and> eval (PyStr ''na_q100.npy'') body = Inr (PyBool False)
         \<and> eval (PyStr []) body = Inr (PyBool False))"
proof -
  have h: "''II-B'' \<in> set feature_sets" by (simp add: feature_sets_def)
  from check_total [OF h]
  obtain body check where b: "check_body ''II-B'' = Inr body"
    and c: "select_check ''II-B'' = Inr check"
    and e: "\<forall>x. eval (PyStr x) body = Inr (PyBool (check x))" by blast
  have "select_check ''II-B'' =
      Inr (\<lambda>x. (x \<in> set [''aa.npy'', ''cn.npy'', ''jc.npy'', ''pa.npy'']
                    \<or> contains x ''_q100'')
                 \<and> \<not> startswith x ''na'')"
    by (simp add: select_check_def)
  with c have ch: "check = (\<lambda>x. (x \<in> set [''aa.npy'', ''cn.npy'', ''jc.npy'', ''pa.npy'']
                    \<or> contains x ''_q100'')
                 \<and> \<not> startswith x ''na'')"
    by simp
  have "check ''cn_q100.npy''" and "\<not> check ''na_q100.npy''" and "\<not> check []"
    unfolding ch by (simp_all add: startswith_def)
  with e have "eval (PyStr ''cn_q100.npy'') body = Inr (PyBool True)"
    and "eval (PyStr ''na_q100.npy'') body = Inr (PyBool False)"
    and "eval (PyStr []) body = Inr (PyBool False)" by simp_all
  with h b show ?thesis by blast
qed

section \<open>Properties of the result cache\<close>

text \<open>
  C2. When the result artifact exists, no outcome of \<^verbatim>\<open>single\<close> calls a library or
  touches a file; where the directories of the network exist, as they do around an
  artifact, and in general where the two \<^verbatim>\<open>os.makedirs\<close> calls succeed, \<^verbatim>\<open>single\<close>
  returns at its cache check. After an invocation that returned, a second invocation
  with the same arguments returns too, calls nothing and leaves every file as it is. So
  two invocations evaluate at most once.
\<close>

theorem single_idempotent:
  "(isfile w (filepath_out n fs clf) \<longrightarrow>
      (\<forall>r w1. single e n clf fs rs nj w = (r, w1) \<longrightarrow>
         calls w1 = calls w \<and> files w1 = files w))
   \<and> (isfile w (filepath_out n fs clf) \<and> network_dirs n \<subseteq> dirs w \<longrightarrow>
        single e n clf fs rs nj w = (Inr (), print ''this is a file'' w))
   \<and> (\<forall>w0. isfile w (filepath_out n fs clf) \<and> prepare n w = (Inr (), w0) \<longrightarrow>
        single e n clf fs rs nj w = (Inr (), print ''this is a file'' w0))
   \<and> (\<forall>w1. single e n clf fs rs nj w = (Inr (), w1) \<longrightarrow>
        (\<exists>w2. single e n clf fs rs nj w1 = (Inr (), w2)
           \<and> calls w2 = calls w1 \<and> files w2 = files w1))"
proof (intro conjI impI allI)
  fix r w1
  assume "isfile w (filepath_out n fs clf)" and "single e n clf fs rs nj w = (r, w1)"
  then show "calls w1 = calls w" using single_cached_frame by blast
next
  fix r w1
  assume "isfile w (filepath_out n fs clf)" and "single e n clf fs rs nj w = (r, w1)"
  then show "files w1 = files w" using single_cached_frame by blast
next
  assume a: "isfile w (filepath_out n fs clf) \<and> network_dirs n \<subseteq> dirs w"
  then have "prepare n w = (Inr (), w)" by (intro prepare_noop) simp
  from single_cached [OF this] a
  show "single e n clf fs rs nj w = (Inr (), print ''this is a file'' w)" by simp
next
  fix w0
  assume "isfile w (filepath_out n fs clf) \<and> prepare n w = (Inr (), w0)"
  then show "single e n clf fs rs nj w = (Inr (), print ''this is a file'' w0)"
    using single_cached by simp
next
  fix w1 assume "single e n clf fs rs nj w = (Inr (), w1)"
  then show "\<exists>w2. single e n clf fs rs nj w1 = (Inr (), w2)
           \<and> calls w2 = calls w1 \<and> files w2 = files w1"
    by (rule single_second_call)
qed

theorem single_idempotent_witness:
  "\<exists>w1 w2. single ext_sample 1 ''LogisticRegression'' ''I'' 42 (- 1) world_network1 = (Inr (), w1)
     \<and> files w1 ''/data/s1620444/01/properties/I_LogisticRegression.float'' = Some ''0.5''
     \<and> single ext_sample 1 ''LogisticRegression'' ''I'' 42 (- 1) w1 = (Inr (), w2)
     \<and> calls w2 = calls w1 \<and> files w2 = files w1
     \<and> isfile w1 (filepath_out 1 ''I'' ''LogisticRegression'')
     \<and> network_dirs 1 \<subseteq> dirs w1
     \<and> w2 = print ''this is a file'' w1"
proof -
  obtain r w1 where 1: "single ext_sample 1 ''LogisticRegression'' ''I'' 42 (- 1) world_network1 = (r, w1)"
    by (cases "single ext_sample 1 ''LogisticRegression'' ''I'' 42 (- 1) world_network1")
  have "fst (single ext_sample 1 ''LogisticRegression'' ''I'' 42 (- 1) world_network1) = Inr ()"
    by code_simp
  with 1 have r: "r = Inr ()" by simp
  have "files (snd (single ext_sample 1 ''LogisticRegression'' ''I'' 42 (- 1) world_network1))
     ''/data/s1620444/01/properties/I_LogisticRegression.float'' = Some ''0.5''"
    by code_simp
  with 1 have f: "files w1 ''/data/s1620444/01/properties/I_LogisticRegression.float'' = Some ''0.5''"
    by simp
  have "filepath_out 1 ''I'' ''LogisticRegression''
      = ''/data/s1620444/01/properties/I_LogisticRegression.float''"
    by code_simp
  with f have c: "isfile w1 (filepath_out 1 ''I'' ''LogisticRegression'')"
    by (simp add: isfile_def)
  have "network_dirs 1
      \<subseteq> dirs (snd (single ext_sample 1 ''LogisticRegression'' ''I'' 42 (- 1) world_network1))"
    by code_simp
  with 1 have d: "network_dirs 1 \<subseteq> dirs w1" by simp
  note t = single_idempotent [where w = world_network1 and n = 1 and fs = "''I''"
      and clf = "''LogisticRegression''" and e = ext_sample and rs = 42 and nj = "- 1"]
  note t1 = single_idempotent [where w = w1 and n = 1 and fs = "''I''"
      and clf = "''LogisticRegression''" and e = ext_sample and rs = 42 and nj = "- 1"]
  from t [THEN conjunct2, THEN conjunct2, THEN conjunct2] 1 r
  obtain w2 where 2: "single ext_sample 1 ''LogisticRegression'' ''I'' 42 (- 1) w1 = (Inr (), w2)"
    and 3: "calls w2 = calls w1" "files w2 = files w1" by blast
  from t1 [THEN conjunct2, THEN conjunct1] c d
  have "single ext_sample 1 ''LogisticRegression'' ''I'' 42 (- 1) w1
      = (Inr (), print ''this is a file'' w1)" by blast
  with 2 have 4: "w2 = print ''this is a file'' w1" by simp
  from 1 r f 2 3 c d 4 show ?thesis by blast
qed

section \<open>Properties of the batch entry points\<close>

text \<open>
  C3. \<^verbatim>\<open>single_all_features\<close> does not hand its \<^verbatim>\<open>clf\<close>, \<^verbatim>\<open>random_state\<close> and
  \<^verbatim>\<open>n_jobs\<close> to \<^verbatim>\<open>single\<close>. Asked for RandomForest on network 1, it fits the
  logistic-regression pipeline six times with the default arguments and writes the
  artifacts of LogisticRegression; no RandomForest artifact appears.
\<close>

theorem single_all_features_ignores_clf:
  "fst (single_all_features ext_sample 1 ''RandomForest'' 7 4 world_network1) = Inr ()
   \<and> files (snd (single_all_features ext_sample 1 ''RandomForest'' 7 4 world_network1))
        ''/data/s1620444/01/properties/I_RandomForest.float'' = None
   \<and> files (snd (single_all_features ext_sample 1 ''RandomForest'' 7 4 world_network1))
        ''/data/s1620444/01/properties/I_LogisticRegression.float'' = Some ''0.5''
   \<and> calls (snd (single_all_features ext_sample 1 ''RandomForest'' 7 4 world_network1)) =
       [Load_features [''/data/s1620444/01/features/aa.npy''],
        Read_pickle ''/data/s1620444/01/samples.pkl'', Train_test_split 42,
        Fit (LogisticRegression_pipeline 10000 (- 1) 42) None, Roc_auc_score,
        Load_features [''/data/s1620444/01/features/aa.npy''],
        Read_pickle ''/data/s1620444/01/samples.pkl'', Train_test_split 42,
        Fit (LogisticRegression_pipeline 10000 (- 1) 42) None, Roc_auc_score,
        Load_features [''/data/s1620444/01/features/aa.npy''],
        Read_pickle ''/data/s1620444/01/samples.pkl'', Train_test_split 42,
        Fit (LogisticRegression_pipeline 10000 (- 1) 42) None, Roc_auc_score,
        Load_features [''/data/s1620444/01/features/na_x.npy'',
                       ''/data/s1620444/01/features/na_x_q100.npy''],
        Read_pickle ''/data/s1620444/01/samples.pkl'', Train_test_split 42,
        Fit (LogisticRegression_pipeline 10000 (- 1) 42) None, Roc_auc_score,
        Load_features [''/data/s1620444/01/features/na_x_q100.npy''],
        Read_pickle ''/data/s1620444/01/samples.pkl'', Train_test_split 42,
        Fit (LogisticRegression_pipeline 10000 (- 1) 42) None, Roc_auc_score,
        Load_features [''/data/s1620444/01/features/aa.npy'',
                       ''/data/s1620444/01/features/na_x.npy'',
                       ''/data/s1620444/01/features/na_x_q100.npy''],
        Read_pickle ''/data/s1620444/01/samples.pkl'', Train_test_split 42,
        Fit (LogisticRegression_pipeline 10000 (- 1) 42) None, Roc_auc_score]"
  by code_simp

theorem single_all_features_ignores_clf_witness:
  "files (snd (single_all_features ext_sample 1 ''RandomForest'' 7 4 world_network1))
        ''/data/s1620444/01/properties/I_RandomForest.float'' = None
   \<and> Fit (RandomForest_pipeline 7 4) None
        \<notin> set (calls (snd (single_all_features ext_sample 1 ''RandomForest'' 7 4 world_network1)))"
  using single_all_features_ignores_clf by simp

text \<open>
  C4. With no network given, \<^verbatim>\<open>all\<close> iterates over the integers 1 to 30 (the range
  of \<^verbatim>\<open>np.arange(1, 31)\<close>) without 5, 15, 17, 26 and 27; with a network given, over
  that network alone.
\<close>

theorem all_networks_range:
  "set (all_networks None) = {1..30} - {5, 15, 17, 26, 27}
   \<and> all_networks (Some n) = [n]"
proof -
  have "set (map int [1..<31]) = {1..30}"
  proof (intro set_eqI iffI)
    fix x assume "x \<in> set (map int [1..<31])"
    then show "x \<in> {1..30}" by auto
  next
    fix x :: int assume "x \<in> {1..30}"
    then have "x \<in> int ` set [1..<31]"
      by (intro image_eqI [of _ _ "nat x"]) auto
    then show "x \<in> set (map int [1..<31])" by simp
  qed
  then show ?thesis
    by (auto simp: all_networks_def)
qed

theorem all_networks_range_witness:
  "all_networks (Some 7) = [7] \<and> 30 \<in> set (all_networks None) \<and> 5 \<notin> set (all_networks None)"
  using all_networks_range [of 7] by simp

text \<open>Network 31 lies between 1 and 31 and is not excluded, yet it is not iterated over.\<close>

theorem all_networks_31_counterexample:
  "(31::int) \<in> {1..31} - {5, 15, 17, 26, 27} \<and> 31 \<notin> set (all_networks None)"
  by (auto simp: all_networks_def)

section \<open>Properties of \<^verbatim>\<open>predict\<close> and its caller\<close>

text \<open>
  C5. For a recognized feature set: where the directory exists and its features
  subdirectory does not, \<^verbatim>\<open>predict\<close> returns \<open>None\<close>. On a network with no features
  subdirectory and no artifact, no outcome of \<^verbatim>\<open>single\<close> writes a file or calls a
  library; where its two \<^verbatim>\<open>os.makedirs\<close> calls succeed, it prints the two lines of the
  "no data" return and returns, and a second run reaches \<^verbatim>\<open>predict\<close> again (it prints
  the same two lines) and still writes nothing.
\<close>

theorem missing_features_none:
  assumes "feature_set \<in> set feature_sets"
  shows "(isdir w directory \<and> \<not> isdir w (join directory ''features'') \<longrightarrow>
            predict e directory feature_set clf rs nj w
              = (Inr None, print ''returning none!'' w))
     \<and> (\<not> isdir w (join (network_directory n) ''features'')
          \<and> \<not> isfile w (filepath_out n feature_set clf) \<longrightarrow>
         (\<forall>r w1. single e n clf feature_set rs nj w = (r, w1) \<longrightarrow>
            files w1 = files w \<and> calls w1 = calls w)
         \<and> (\<forall>w0. prepare n w = (Inr (), w0) \<longrightarrow>
              (\<exists>w1 w2. single e n clf feature_set rs nj w = (Inr (), w1)
                 \<and> stdout w1 = stdout w @ [''returning none!'', ''None'']
                 \<and> single e n clf feature_set rs nj w1 = (Inr (), w2)
                 \<and> files w2 = files w \<and> calls w2 = calls w
                 \<and> stdout w2 = stdout w1 @ [''returning none!'', ''None''])))"
proof -
  from select_check_recognized [OF assms]
  obtain check where c: "select_check feature_set = Inr check" by blast
  have 1: "predict e directory feature_set clf rs nj w
              = (Inr None, print ''returning none!'' w)"
    if "isdir w directory \<and> \<not> isdir w (join directory ''features'')"
    using that predict_None [OF c] by blast
  have 2: "files w1 = files w \<and> calls w1 = calls w"
    if "\<not> isdir w (join (network_directory n) ''features'')
          \<and> \<not> isfile w (filepath_out n feature_set clf)"
      and "single e n clf feature_set rs nj w = (r, w1)" for r w1
    using single_missing_features_frame [OF c _ _ that(2)] that(1) by blast
  have 3: "\<exists>w1 w2. single e n clf feature_set rs nj w = (Inr (), w1)
                 \<and> stdout w1 = stdout w @ [''returning none!'', ''None'']
                 \<and> single e n clf feature_set rs nj w1 = (Inr (), w2)
                 \<and> files w2 = files w \<and> calls w2 = calls w
                 \<and> stdout w2 = stdout w1 @ [''returning none!'', ''None'']"
    if h: "\<not> isdir w (join (network_directory n) ''features'')
          \<and> \<not> isfile w (filepath_out n feature_set clf)"
      and ok: "prepare n w = (Inr (), w0)" for w0
  proof -
    let ?w1 = "print ''None'' (print ''returning none!'' w0)"
    note f = prepare_frame [OF ok]
    have s1: "single e n clf feature_set rs nj w = (Inr (), ?w1)"
      using h ok by (intro single_missing_features_check [OF c]) simp_all
    have "dirs ?w1 = dirs w0" by simp
    from prepare_again [OF ok this] have ok1: "prepare n ?w1 = (Inr (), ?w1)" .
    have "\<not> isdir ?w1 (join (network_directory n) ''features'')"
      using h prepare_features [OF ok] by simp
    moreover have "\<not> isfile ?w1 (filepath_out n feature_set clf)"
      using h prepare_isfile [OF ok] by simp
    ultimately have s2: "single e n clf feature_set rs nj ?w1
        = (Inr (), print ''None'' (print ''returning none!'' ?w1))"
      using ok1 by (intro single_missing_features_check [OF c])
    have "stdout ?w1 = stdout w @ [''returning none!'', ''None'']" using f by simp
    moreover have "files (print ''None'' (print ''returning none!'' ?w1)) = files w"
      using f by simp
    moreover have "calls (print ''None'' (print ''returning none!'' ?w1)) = calls w"
      using f by simp
    moreover have "stdout (print ''None'' (print ''returning none!'' ?w1))
        = stdout ?w1 @ [''returning none!'', ''None'']" by simp
    ultimately show ?thesis using s1 s2 by blast
  qed
  from 1 2 3 show ?thesis by blast
qed

theorem missing_features_none_witness:
  "''I'' \<in> set feature_sets
   \<and> isdir world_network1 ''/data'' \<and> \<not> isdir world_network1 (join ''/data'' ''features'')
   \<and> predict ext_sample ''/data'' ''I'' ''LogisticRegression'' 42 (- 1) world_network1
       = (Inr None, print ''returning none!'' world_network1)
   \<and> \<not> isdir world_network1 (join (network_directory 2) ''features'')
   \<and> \<not> isfile world_network1 (filepath_out 2 ''I'' ''LogisticRegression'')
   \<and> fst (prepare 2 world_network1) = Inr ()
   \<and> (\<exists>w1 w2. single ext_sample 2 ''LogisticRegression'' ''I'' 42 (- 1) world_network1 = (Inr (), w1)
         \<and> stdout w1 = [''returning none!'', ''None'']
         \<and> single ext_sample 2 ''LogisticRegression'' ''I'' 42 (- 1) w1 = (Inr (), w2)
         \<and> files w2 = files world_network1
         \<and> stdout w2 = [''returning none!'', ''None'', ''returning none!'', ''None''])"
proof -
  have h: "''I'' \<in> set feature_sets" by (simp add: feature_sets_def)
  have a: "isdir world_network1 ''/data'' \<and> \<not> isdir world_network1 (join ''/data'' ''features'')"
    by (simp add: isdir_def world_network1_def join_def startswith_def)
  have "join (network_directory 2) ''features'' = ''/data/s1620444/02/features''"
    by code_simp
  then have b: "\<not> isdir world_network1 (join (network_directory 2) ''features'')"
    by (simp add: isdir_def world_network1_def)
  have "filepath_out 2 ''I'' ''LogisticRegression''
      = ''/data/s1620444/02/properties/I_LogisticRegression.float''"
    by code_simp
  then have c: "\<not> isfile world_network1 (filepath_out 2 ''I'' ''LogisticRegression'')"
    by (simp add: isfile_def world_network1_def)
  have p: "fst (prepare 2 world_network1) = Inr ()" by code_simp
  then obtain w0 where ok: "prepare 2 world_network1 = (Inr (), w0)"
    by (cases "prepare 2 world_network1") simp
  have s: "stdout world_network1 = []" by (simp add: world_network1_def)
  note t = missing_features_none [OF h, where w = world_network1 and directory = "''/data''"
      and n = 2 and clf = "''LogisticRegression''" and e = ext_sample and rs = 42 and nj = "- 1"]
  from t [THEN conjunct1] a
  have 1: "predict ext_sample ''/data'' ''I'' ''LogisticRegression'' 42 (- 1) world_network1
       = (Inr None, print ''returning none!'' world_network1)" by blast
  from t [THEN conjunct2] b c ok
  have "\<exists>w1 w2. single ext_sample 2 ''LogisticRegression'' ''I'' 42 (- 1) world_network1 = (Inr (), w1)
                 \<and> stdout w1 = stdout world_network1 @ [''returning none!'', ''None'']
                 \<and> single ext_sample 2 ''LogisticRegression'' ''I'' 42 (- 1) w1 = (Inr (), w2)
                 \<and> files w2 = files world_network1 \<and> calls w2 = calls world_network1
                 \<and> stdout w2 = stdout w1 @ [''returning none!'', ''None'']" by blast
  then obtain w1 w2 where
    "single ext_sample 2 ''LogisticRegression'' ''I'' 42 (- 1) world_network1 = (Inr (), w1)"
    "stdout w1 = [''returning none!'', ''None'']"
    "single ext_sample 2 ''LogisticRegression'' ''I'' 42 (- 1) w1 = (Inr (), w2)"
    "files w2 = files world_network1"
    "stdout w2 = [''returning none!'', ''None'', ''returning none!'', ''None'']"
    by (auto simp: s)
  with h a 1 b c p show ?thesis by blast
qed

text \<open>
  With an unrecognized feature set \<^verbatim>\<open>predict\<close> raises although the directory exists and
  has no features subdirectory: the identifier is checked first.
\<close>

theorem missing_features_unrecognized_counterexample:
  "isdir world_network1 ''/data'' \<and> \<not> isdir world_network1 (join ''/data'' ''features'')
   \<and> predict ext_sample ''/data'' ''bogus'' ''LogisticRegression'' 42 (- 1) world_network1
       = (Inl (Exception ''bogus not recognized''), world_network1)"
  by (simp add: predict_def select_check_def isdir_def world_network1_def join_def startswith_def)

text \<open>
  C6. For an identifier outside the six, \<^verbatim>\<open>predict\<close> raises the configuration error
  and leaves the world as it was (nothing loaded, nothing fitted). \<^verbatim>\<open>single\<close> then ends
  in one of three ways: with the exception of \<^verbatim>\<open>os.makedirs\<close>, at its cache check, or
  with the configuration error; in all three it writes no file and makes no call into
  the libraries.
\<close>

theorem unrecognized_feature_set:
  assumes "feature_set \<notin> set feature_sets"
  shows "predict e directory feature_set clf rs nj w
           = (Inl (Exception (feature_set @ '' not recognized'')), w)
     \<and> (\<exists>r w'. single e n clf feature_set rs nj w = (r, w')
           \<and> r = (case fst (prepare n w) of
                    Inl err \<Rightarrow> Inl err
                  | Inr u \<Rightarrow>
                      if isfile w (filepath_out n feature_set clf) then Inr ()
                      else Inl (Exception (feature_set @ '' not recognized'')))
           \<and> files w' = files w \<and> calls w' = calls w)"
proof -
  have 1: "predict e directory feature_set clf rs nj w
           = (Inl (Exception (feature_set @ '' not recognized'')), w)"
    using select_check_unrecognized [OF assms] by (simp add: predict_def)
  obtain rp w2 where p: "prepare n w = (rp, w2)" by (cases "prepare n w")
  note f = prepare_frame [OF p]
  note s = single_unrecognized [OF assms, of e n clf rs nj w]
  have 2: "\<exists>r w'. single e n clf feature_set rs nj w = (r, w')
           \<and> r = (case fst (prepare n w) of
                    Inl err \<Rightarrow> Inl err
                  | Inr u \<Rightarrow>
                      if isfile w (filepath_out n feature_set clf) then Inr ()
                      else Inl (Exception (feature_set @ '' not recognized'')))
           \<and> files w' = files w \<and> calls w' = calls w"
  proof (cases rp)
    case (Inl err)
    with p s have "single e n clf feature_set rs nj w = (Inl err, w2)" by simp
    with p Inl f show ?thesis by simp
  next
    case (Inr u)
    show ?thesis
    proof (cases "isfile w (filepath_out n feature_set clf)")
      case True
      with p s Inr have "single e n clf feature_set rs nj w
          = (Inr (), print ''this is a file'' w2)" by simp
      with p Inr True f show ?thesis by simp
    next
      case False
      with p s Inr have "single e n clf feature_set rs nj w
          = (Inl (Exception (feature_set @ '' not recognized'')), w2)" by simp
      with p Inr False f show ?thesis by simp
    qed
  qed
  from 1 2 show ?thesis by (rule conjI)
qed

theorem unrecognized_feature_set_witness:
  "''bogus'' \<notin> set feature_sets
   \<and> predict ext_sample ''/data/s1620444/01'' ''bogus'' ''LogisticRegression'' 42 (- 1) world_network1
       = (Inl (Exception ''bogus not recognized''), world_network1)
   \<and> (\<exists>w'. single ext_sample 1 ''LogisticRegression'' ''bogus'' 42 (- 1) world_network1
               = (Inl (Exception ''bogus not recognized''), w')
           \<and> files w' = files world_network1 \<and> calls w' = [])"
proof -
  have h: "''bogus'' \<notin> set feature_sets" by (simp add: feature_sets_def)
  have "filepath_out 1 ''bogus'' ''LogisticRegression''
      = ''/data/s1620444/01/properties/bogus_LogisticRegression.float''"
    by code_simp
  then have f: "\<not> isfile world_network1 (filepath_out 1 ''bogus'' ''LogisticRegression'')"
    by (simp add: isfile_def world_network1_def)
  have p: "fst (prepare 1 world_network1) = Inr ()" by code_simp
  have c: "calls world_network1 = []" by (simp add: world_network1_def)
  note t = unrecognized_feature_set [OF h, where e = ext_sample
      and directory = "''/data/s1620444/01''" and clf = "''LogisticRegression''"
      and rs = 42 and nj = "- 1" and w = world_network1 and n = 1]
  from t [THEN conjunct1]
  have 1: "predict ext_sample ''/data/s1620444/01'' ''bogus'' ''LogisticRegression'' 42 (- 1)
      world_network1 = (Inl (Exception ''bogus not recognized''), world_network1)" by simp
  from t [THEN conjunct2] f p c
  have 2: "\<exists>w'. single ext_sample 1 ''LogisticRegression'' ''bogus'' 42 (- 1) world_network1
               = (Inl (Exception ''bogus not recognized''), w')
           \<and> files w' = files world_network1 \<and> calls w' = []" by auto
  from h 1 2 show ?thesis by blast
qed

text \<open>
  C7. Every fit that \<^verbatim>\<open>predict\<close> makes is of the estimator of its classifier name: the
  logistic regression with \<^verbatim>\<open>n_jobs\<close> as given, the random forest and xgboost with 100
  for a negative \<^verbatim>\<open>n_jobs\<close> and with \<^verbatim>\<open>n_jobs\<close> itself otherwise. A score that
  \<^verbatim>\<open>predict\<close> returns is the score of the probabilities predicted by such a fit.
\<close>

lemma make_estimator_cases:
  "make_estimator clf rs nj = Inr pipe \<Longrightarrow>
     (clf = ''LogisticRegression'' \<and> pipe = LogisticRegression_pipeline 10000 nj rs)
     \<or> (clf = ''RandomForest''
          \<and> pipe = RandomForest_pipeline rs (if nj < 0 then 100 else nj))
     \<or> (clf = ''XGBoost'' \<and> pipe = XGBClassifier (if nj < 0 then 100 else nj) rs)"
  by (auto simp: make_estimator_def split: if_splits)

theorem n_jobs_passed:
  assumes "predict e directory feature_set clf rs n_jobs w = (r, w')"
  shows "\<exists>cs. calls w' = calls w @ cs
     \<and> (\<forall>pipe m. Fit pipe m \<in> set cs \<longrightarrow>
           (clf = ''LogisticRegression''
              \<and> pipe = LogisticRegression_pipeline 10000 n_jobs rs)
           \<or> (clf = ''RandomForest''
                \<and> pipe = RandomForest_pipeline rs (if n_jobs < 0 then 100 else n_jobs))
           \<or> (clf = ''XGBoost''
                \<and> pipe = XGBClassifier (if n_jobs < 0 then 100 else n_jobs) rs))
     \<and> (\<forall>auc. r = Inr (Some auc) \<longrightarrow>
           (\<exists>pipe m sp proba. Fit pipe m \<in> set cs
              \<and> fit_predict_proba e pipe m sp = Inr proba
              \<and> roc_auc_score e (snd (snd (snd sp))) proba = Inr auc))"
proof -
  from predict_calls [OF assms] obtain cs where all: "calls w' = calls w @ cs
       \<and> (\<forall>pipe m. Fit pipe m \<in> set cs \<longrightarrow>
             make_estimator clf rs n_jobs = Inr pipe
             \<and> m = (if clf = ''XGBoost'' then Some ''logloss'' else None))
       \<and> (\<forall>auc. r = Inr (Some auc) \<longrightarrow>
             (\<exists>pipe sp proba. make_estimator clf rs n_jobs = Inr pipe
                \<and> Fit pipe (if clf = ''XGBoost'' then Some ''logloss'' else None) \<in> set cs
                \<and> fit_predict_proba e pipe
                      (if clf = ''XGBoost'' then Some ''logloss'' else None) sp = Inr proba
                \<and> roc_auc_score e (snd (snd (snd sp))) proba = Inr auc))" ..
  from all have 1: "calls w' = calls w @ cs" by (rule conjunct1)
  from all have f: "\<forall>pipe m. Fit pipe m \<in> set cs \<longrightarrow>
             make_estimator clf rs n_jobs = Inr pipe
             \<and> m = (if clf = ''XGBoost'' then Some ''logloss'' else None)"
    by (rule conjunct2 [THEN conjunct1])
  from all have s: "\<forall>auc. r = Inr (Some auc) \<longrightarrow>
             (\<exists>pipe sp proba. make_estimator clf rs n_jobs = Inr pipe
                \<and> Fit pipe (if clf = ''XGBoost'' then Some ''logloss'' else None) \<in> set cs
                \<and> fit_predict_proba e pipe
                      (if clf = ''XGBoost'' then Some ''logloss'' else None) sp = Inr proba
                \<and> roc_auc_score e (snd (snd (snd sp))) proba = Inr auc)"
    by (rule conjunct2 [THEN conjunct2])
  have 2: "\<forall>pipe m. Fit pipe m \<in> set cs \<longrightarrow>
           (clf = ''LogisticRegression''
              \<and> pipe = LogisticRegression_pipeline 10000 n_jobs rs)
           \<or> (clf = ''RandomForest''
                \<and> pipe = RandomForest_pipeline rs (if n_jobs < 0 then 100 else n_jobs))
           \<or> (clf = ''XGBoost''
                \<and> pipe = XGBClassifier (if n_jobs < 0 then 100 else n_jobs) rs)"
  proof (intro allI impI)
    fix pipe m assume "Fit pipe m \<in> set cs"
    with f have "make_estimator clf rs n_jobs = Inr pipe" by blast
    then show "(clf = ''LogisticRegression''
              \<and> pipe = LogisticRegression_pipeline 10000 n_jobs rs)
           \<or> (clf = ''RandomForest''
                \<and> pipe = RandomForest_pipeline rs (if n_jobs < 0 then 100 else n_jobs))
           \<or> (clf = ''XGBoost''
                \<and> pipe = XGBClassifier (if n_jobs < 0 then 100 else n_jobs) rs)"
      by (rule make_estimator_cases)
  qed
  have 3: "\<forall>auc. r = Inr (Some auc) \<longrightarrow>
           (\<exists>pipe m sp proba. Fit pipe m \<in> set cs
              \<and> fit_predict_proba e pipe m sp = Inr proba
              \<and> roc_auc_score e (snd (snd (snd sp))) proba = Inr auc)"
    using s by blast
  from 1 2 3 show ?thesis by blast
qed

theorem n_jobs_passed_witness:
  "\<exists>auc w' cs.
     predict ext_sample ''/data/s1620444/01'' ''I'' ''RandomForest'' 42 (- 1) world_network1
       = (Inr (Some auc), w')
     \<and> calls w' = calls world_network1 @ cs
     \<and> Fit (RandomForest_pipeline 42 100) None \<in> set cs
     \<and> (\<forall>pipe m. Fit pipe m \<in> set cs \<longrightarrow> pipe = RandomForest_pipeline 42 100)"
proof -
  obtain r w' where 1:
    "predict ext_sample ''/data/s1620444/01'' ''I'' ''RandomForest'' 42 (- 1) world_network1 = (r, w')"
    by (cases "predict ext_sample ''/data/s1620444/01'' ''I'' ''RandomForest'' 42 (- 1) world_network1")
  have "case fst (predict ext_sample ''/data/s1620444/01'' ''I'' ''RandomForest'' 42 (- 1)
           world_network1) of Inr (Some a) \<Rightarrow> True | Inr None \<Rightarrow> False | Inl err \<Rightarrow> False"
    by code_simp
  with 1 obtain auc where r: "r = Inr (Some auc)"
    by (auto split: sum.splits option.splits)
  have "Fit (RandomForest_pipeline 42 100) None
      \<in> set (calls (snd (predict ext_sample ''/data/s1620444/01'' ''I'' ''RandomForest'' 42 (- 1)
           world_network1)))"
    by code_simp
  with 1 have m: "Fit (RandomForest_pipeline 42 100) None \<in> set (calls w')" by simp
  have c: "calls world_network1 = []" by (simp add: world_network1_def)
  from n_jobs_passed [OF 1] obtain cs where all: "calls w' = calls world_network1 @ cs
     \<and> (\<forall>pipe m. Fit pipe m \<in> set cs \<longrightarrow>
           (''RandomForest'' = ''LogisticRegression''
              \<and> pipe = LogisticRegression_pipeline 10000 (- 1) 42)
           \<or> (''RandomForest'' = ''RandomForest''
                \<and> pipe = RandomForest_pipeline 42 (if (- 1 :: int) < 0 then 100 else - 1))
           \<or> (''RandomForest'' = ''XGBoost''
                \<and> pipe = XGBClassifier (if (- 1 :: int) < 0 then 100 else - 1) 42))
     \<and> (\<forall>auc. r = Inr (Some auc) \<longrightarrow>
           (\<exists>pipe m sp proba. Fit pipe m \<in> set cs
              \<and> fit_predict_proba ext_sample pipe m sp = Inr proba
              \<and> roc_auc_score ext_sample (snd (snd (snd sp))) proba = Inr auc))" ..
  from all have 2: "calls w' = calls world_network1 @ cs" by (rule conjunct1)
  from all have 3: "\<forall>pipe m. Fit pipe m \<in> set cs \<longrightarrow> pipe = RandomForest_pipeline 42 100"
    by simp
  from 2 m c have 4: "Fit (RandomForest_pipeline 42 100) None \<in> set cs" by simp
  from 1 r 2 3 4 show ?thesis by blast
qed

text \<open>
  C8. In \<^verbatim>\<open>discrete\<close>, when the evaluation of a unit (network, feature set) raises, the
  diagnostic naming both is printed and the remaining units are run; \<^verbatim>\<open>discrete\<close>
  itself returns. In \<^verbatim>\<open>single_all_features\<close>, the first evaluation that raises ends the
  call with that exception, in the world of the failure: the remaining feature sets are
  not run.
\<close>

theorem failure_tolerance:
  "(List.product discrete_ids feature_set = pre @ (i, f) # post
      \<and> single e i ''LogisticRegression'' f 42 (- 1)
           (fold (\<lambda>(i, f). discrete_unit e i f) pre w) = (Inl err, w1)
    \<longrightarrow> discrete e feature_set w =
          (Inr (), fold (\<lambda>(i, f). discrete_unit e i f) post
             (print (''COULD NOT EXTRACT FEATURES NETWORK ID '' @ str_int i @ '', FEATURES '' @ f)
                w1)))
   \<and> (feature_sets = pre' @ f' # post'
        \<and> run_feature_sets e n pre' w = (Inr (), w2)
        \<and> single e n ''LogisticRegression'' f' 42 (- 1)
             (print (''network '' @ str_int n @ '', feature '' @ f') w2) = (Inl err', w3)
      \<longrightarrow> single_all_features e n clf rs nj w = (Inl err', w3))"
proof (intro conjI impI)
  assume h: "List.product discrete_ids feature_set = pre @ (i, f) # post
      \<and> single e i ''LogisticRegression'' f 42 (- 1)
           (fold (\<lambda>(i, f). discrete_unit e i f) pre w) = (Inl err, w1)"
  have "discrete e feature_set w
      = (Inr (), fold (\<lambda>(i, f). discrete_unit e i f) (pre @ (i, f) # post) w)"
    using h by (simp add: discrete_def fold_product)
  also have "fold (\<lambda>(i, f). discrete_unit e i f) (pre @ (i, f) # post) w
      = fold (\<lambda>(i, f). discrete_unit e i f) post
          (discrete_unit e i f (fold (\<lambda>(i, f). discrete_unit e i f) pre w))"
    by simp
  also have "discrete_unit e i f (fold (\<lambda>(i, f). discrete_unit e i f) pre w)
      = print (''COULD NOT EXTRACT FEATURES NETWORK ID '' @ str_int i @ '', FEATURES '' @ f) w1"
    using h by (simp add: discrete_unit_def)
  finally show "discrete e feature_set w =
          (Inr (), fold (\<lambda>(i, f). discrete_unit e i f) post
             (print (''COULD NOT EXTRACT FEATURES NETWORK ID '' @ str_int i @ '', FEATURES '' @ f)
                w1))" .
next
  assume h: "feature_sets = pre' @ f' # post'
        \<and> run_feature_sets e n pre' w = (Inr (), w2)
        \<and> single e n ''LogisticRegression'' f' 42 (- 1)
             (print (''network '' @ str_int n @ '', feature '' @ f') w2) = (Inl err', w3)"
  then have r: "run_feature_sets e n pre' w = (Inr (), w2)"
    and u: "single e n ''LogisticRegression'' f' 42 (- 1)
             (print (''network '' @ str_int n @ '', feature '' @ f') w2) = (Inl err', w3)"
    by blast+
  have "run_feature_sets e n (pre' @ f' # post') w = (Inl err', w3)"
    using r u by (simp add: run_feature_sets_append)
  moreover from h have "feature_sets = pre' @ f' # post'" by blast
  ultimately show "single_all_features e n clf rs nj w = (Inl err', w3)"
    unfolding single_all_features_def by (simp only:)
qed

theorem failure_tolerance_witness:
  "\<exists>w1 w3.
     single ext_sample 18 ''LogisticRegression'' ''bogus'' 42 (- 1) world_network3
        = (Inl (Exception ''bogus not recognized''), w1)
   \<and> discrete ext_sample [''bogus''] world_network3 =
       (Inr (), fold (\<lambda>(i, f). discrete_unit ext_sample i f)
          [(20, ''bogus''), (21, ''bogus''), (9, ''bogus''), (4, ''bogus''), (8, ''bogus''),
           (24, ''bogus''), (16, ''bogus''), (11, ''bogus''), (10, ''bogus'')]
          (print ''COULD NOT EXTRACT FEATURES NETWORK ID 18, FEATURES bogus'' w1))
   \<and> single ext_sample 3 ''LogisticRegression'' ''I'' 42 (- 1)
         (print ''network 3, feature I'' world_network3)
        = (Inl (AssertionError ''samples_filepath'' ''/data/s1620444/03/samples.pkl''), w3)
   \<and> single_all_features ext_sample 3 ''RandomForest'' 42 (- 1) world_network3
        = (Inl (AssertionError ''samples_filepath'' ''/data/s1620444/03/samples.pkl''), w3)
   \<and> stdout w3 = [''network 3, feature I'']"
proof -
  let ?post = "[(20, ''bogus''), (21, ''bogus''), (9, ''bogus''), (4, ''bogus''), (8, ''bogus''),
           (24, ''bogus''), (16, ''bogus''), (11, ''bogus''), (10, ''bogus'')] :: (int \<times> string) list"
  have p: "List.product discrete_ids [''bogus''] = [] @ (18, ''bogus'') # ?post"
    by (simp add: discrete_ids_def)
  obtain r1 w1 where 1: "single ext_sample 18 ''LogisticRegression'' ''bogus'' 42 (- 1) world_network3
        = (r1, w1)"
    by (cases "single ext_sample 18 ''LogisticRegression'' ''bogus'' 42 (- 1) world_network3")
  have "fst (single ext_sample 18 ''LogisticRegression'' ''bogus'' 42 (- 1) world_network3)
      = Inl (Exception ''bogus not recognized'')"
    by code_simp
  with 1 have r1: "r1 = Inl (Exception ''bogus not recognized'')" by simp
  have f: "feature_sets = [] @ ''I'' # [''II-A'', ''II-B'', ''III-A'', ''III-B'', ''I+II-A+III-A'']"
    by (simp add: feature_sets_def)
  obtain r3 w3 where 3: "single ext_sample 3 ''LogisticRegression'' ''I'' 42 (- 1)
         (print ''network 3, feature I'' world_network3) = (r3, w3)"
    by (cases "single ext_sample 3 ''LogisticRegression'' ''I'' 42 (- 1)
         (print ''network 3, feature I'' world_network3)")
  have "fst (single ext_sample 3 ''LogisticRegression'' ''I'' 42 (- 1)
         (print ''network 3, feature I'' world_network3))
      = Inl (AssertionError ''samples_filepath'' ''/data/s1620444/03/samples.pkl'')"
    by code_simp
  with 3 have r3: "r3 = Inl (AssertionError ''samples_filepath'' ''/data/s1620444/03/samples.pkl'')"
    by simp
  have "stdout (snd (single ext_sample 3 ''LogisticRegression'' ''I'' 42 (- 1)
         (print ''network 3, feature I'' world_network3))) = [''network 3, feature I'']"
    by code_simp
  with 3 have s3: "stdout w3 = [''network 3, feature I'']" by simp
  have i18: "str_int 18 = ''18''" and i3: "str_int 3 = ''3''" by code_simp+
  note t = failure_tolerance [of "[''bogus'']" "[]" 18 "''bogus''" ?post ext_sample world_network3
      "Exception ''bogus not recognized''" w1
      "[]" "''I''" "[''II-A'', ''II-B'', ''III-A'', ''III-B'', ''I+II-A+III-A'']" 3 world_network3
      "AssertionError ''samples_filepath'' ''/data/s1620444/03/samples.pkl''" w3
      "''RandomForest''" 42 "- 1"]
  from t p 1 r1 f 3 r3 i18 i3
  have "discrete ext_sample [''bogus''] world_network3 =
       (Inr (), fold (\<lambda>(i, f). discrete_unit ext_sample i f) ?post
          (print ''COULD NOT EXTRACT FEATURES NETWORK ID 18, FEATURES bogus'' w1))"
    and "single_all_features ext_sample 3 ''RandomForest'' 42 (- 1) world_network3
        = (Inl (AssertionError ''samples_filepath'' ''/data/s1620444/03/samples.pkl''), w3)"
    by simp_all
  with 1 r1 3 r3 s3 show ?thesis by blast
qed

text \<open>
  C10. \<^verbatim>\<open>single\<close> begins with its two \<^verbatim>\<open>os.makedirs\<close> calls. Where one of them raises
  (a component of the path is a regular file, or a missing one cannot be created), the
  call ends there with that exception: nothing is printed, no file or library is
  touched, the cache check and \<^verbatim>\<open>predict\<close> are not reached. Where both succeed,
  whatever \<^verbatim>\<open>single\<close> does afterwards (skip, "no data", score or exception), the
  network directory and its properties subdirectory exist when it ends, the directories
  are those of before and the components of the two paths, and the assertion of
  \<^verbatim>\<open>predict\<close> on the directory does not fail; for a network with no directory, no
  features and no artifact, \<^verbatim>\<open>single\<close> returns and leaves no new file. Both calls
  succeed on a disk where no component is a regular file and every directory is
  writable.
\<close>

theorem single_creates_directories:
  assumes "single e n clf fs rs nj w = (r, w')"
  shows "(\<forall>err w0. prepare n w = (Inl err, w0) \<longrightarrow>
            r = Inl err \<and> w' = w0
            \<and> files w' = files w \<and> stdout w' = stdout w \<and> calls w' = calls w
            \<and> ((\<exists>p. err = FileExistsError p) \<or> (\<exists>p. err = NotADirectoryError p)
                \<or> (\<exists>p. err = PermissionError p)))
     \<and> (\<forall>w0. prepare n w = (Inr (), w0) \<longrightarrow>
            isdir w' (network_directory n) \<and> isdir w' (network_directory_out n)
            \<and> dirs w' = dirs w \<union> network_dirs n
            \<and> (\<forall>x. r \<noteq> Inl (AssertionError ''directory'' x))
            \<and> (fs \<in> set feature_sets \<and> \<not> isdir w (network_directory n)
                 \<and> \<not> isdir w (join (network_directory n) ''features'')
                 \<and> \<not> isfile w (filepath_out n fs clf) \<longrightarrow>
               r = Inr () \<and> files w' = files w \<and> calls w' = calls w))
     \<and> ((\<forall>d \<in> network_dirs n. isfile w d \<longrightarrow> isdir w d) \<and> readonly w = {} \<longrightarrow>
          (\<exists>w0. prepare n w = (Inr (), w0)))"
proof -
  have 1: "r = Inl err \<and> w' = w0
            \<and> files w' = files w \<and> stdout w' = stdout w \<and> calls w' = calls w
            \<and> ((\<exists>p. err = FileExistsError p) \<or> (\<exists>p. err = NotADirectoryError p)
                \<or> (\<exists>p. err = PermissionError p))"
    if p: "prepare n w = (Inl err, w0)" for err w0
  proof -
    from single_prepare_failed [OF p, of e clf fs rs nj] assms
    have a: "r = Inl err \<and> w' = w0" by simp
    from prepare_frame [OF p] a
    have b: "files w' = files w \<and> stdout w' = stdout w \<and> calls w' = calls w" by simp
    from a b prepare_error [OF p] show ?thesis by blast
  qed
  have 2: "isdir w' (network_directory n) \<and> isdir w' (network_directory_out n)
            \<and> dirs w' = dirs w \<union> network_dirs n
            \<and> (\<forall>x. r \<noteq> Inl (AssertionError ''directory'' x))
            \<and> (fs \<in> set feature_sets \<and> \<not> isdir w (network_directory n)
                 \<and> \<not> isdir w (join (network_directory n) ''features'')
                 \<and> \<not> isfile w (filepath_out n fs clf) \<longrightarrow>
               r = Inr () \<and> files w' = files w \<and> calls w' = calls w)"
    if ok: "prepare n w = (Inr (), w0)" for w0
  proof -
    from single_dirs [OF ok assms]
    have d: "dirs w' = dirs w0"
      and a: "\<forall>x. r \<noteq> Inl (AssertionError ''directory'' x)" by blast+
    from prepare_success [OF ok] d have u: "dirs w' = dirs w \<union> network_dirs n" by simp
    then have i: "isdir w' (network_directory n) \<and> isdir w' (network_directory_out n)"
      by (simp add: isdir_def network_dirs_def)
    have c: "r = Inr () \<and> files w' = files w \<and> calls w' = calls w"
      if h: "fs \<in> set feature_sets \<and> \<not> isdir w (network_directory n)
                 \<and> \<not> isdir w (join (network_directory n) ''features'')
                 \<and> \<not> isfile w (filepath_out n fs clf)"
    proof -
      from h select_check_recognized obtain check where "select_check fs = Inr check"
        by blast
      from single_missing_features_check [OF this _ _ ok, of clf e rs nj] h assms
      have "r = Inr () \<and> w' = print ''None'' (print ''returning none!'' w0)" by simp
      with prepare_frame [OF ok] show ?thesis by simp
    qed
    from i u a c show ?thesis by blast
  qed
  have 3: "\<exists>w0. prepare n w = (Inr (), w0)"
    if "(\<forall>d \<in> network_dirs n. isfile w d \<longrightarrow> isdir w d) \<and> readonly w = {}"
    using that prepare_succeeds by blast
  from 1 2 3 show ?thesis by blast
qed

theorem single_creates_directories_witness:
  "(\<exists>w'. single ext_sample 2 ''LogisticRegression'' ''I'' 42 (- 1) world_empty = (Inr (), w')
      \<and> fst (prepare 2 world_empty) = Inr ()
      \<and> \<not> isdir world_empty (network_directory 2)
      \<and> isdir w' (network_directory 2) \<and> isdir w' (network_directory_out 2)
      \<and> dirs w' = dirs world_empty \<union> network_dirs 2
      \<and> files w' = files world_empty \<and> calls w' = [])
   \<and> (\<exists>w'. single ext_sample 5 ''LogisticRegression'' ''I'' 42 (- 1) world_blocked
              = (Inl (FileExistsError ''/data/s1620444/05''), w')
         \<and> fst (prepare 5 world_blocked) = Inl (FileExistsError ''/data/s1620444/05'')
         \<and> stdout w' = [] \<and> calls w' = [])"
proof -
  obtain r w' where 1: "single ext_sample 2 ''LogisticRegression'' ''I'' 42 (- 1) world_empty = (r, w')"
    by (cases "single ext_sample 2 ''LogisticRegression'' ''I'' 42 (- 1) world_empty")
  have h: "''I'' \<in> set feature_sets \<and> \<not> isdir world_empty (network_directory 2)
          \<and> \<not> isdir world_empty (join (network_directory 2) ''features'')
          \<and> \<not> isfile world_empty (filepath_out 2 ''I'' ''LogisticRegression'')"
    by (simp add: feature_sets_def isdir_def isfile_def world_empty_def)
  have p: "fst (prepare 2 world_empty) = Inr ()" by code_simp
  then obtain w0 where ok: "prepare 2 world_empty = (Inr (), w0)"
    by (cases "prepare 2 world_empty") simp
  have e: "calls world_empty = []" "stdout world_empty = []" by (simp_all add: world_empty_def)
  note t = single_creates_directories [OF 1]
  from t [THEN conjunct2, THEN conjunct1] ok h
  have "isdir w' (network_directory 2)" and "isdir w' (network_directory_out 2)"
    and "dirs w' = dirs world_empty \<union> network_dirs 2"
    and "r = Inr ()" and "files w' = files world_empty" and "calls w' = calls world_empty"
    by blast+
  with 1 p h e
  have A: "\<exists>w'. single ext_sample 2 ''LogisticRegression'' ''I'' 42 (- 1) world_empty = (Inr (), w')
      \<and> fst (prepare 2 world_empty) = Inr ()
      \<and> \<not> isdir world_empty (network_directory 2)
      \<and> isdir w' (network_directory 2) \<and> isdir w' (network_directory_out 2)
      \<and> dirs w' = dirs world_empty \<union> network_dirs 2
      \<and> files w' = files world_empty \<and> calls w' = []"
    by auto
  obtain r5 w5 where 5:
    "single ext_sample 5 ''LogisticRegression'' ''I'' 42 (- 1) world_blocked = (r5, w5)"
    by (cases "single ext_sample 5 ''LogisticRegression'' ''I'' 42 (- 1) world_blocked")
  have p5: "fst (prepare 5 world_blocked) = Inl (FileExistsError ''/data/s1620444/05'')"
    by code_simp
  then obtain w05 where bad: "prepare 5 world_blocked = (Inl (FileExistsError ''/data/s1620444/05''), w05)"
    by (cases "prepare 5 world_blocked") simp
  have e5: "calls world_blocked = []" "stdout world_blocked = []"
    by (simp_all add: world_blocked_def)
  note t5 = single_creates_directories [OF 5]
  from t5 [THEN conjunct1] bad
  have "r5 = Inl (FileExistsError ''/data/s1620444/05'')"
    and "stdout w5 = stdout world_blocked" and "calls w5 = calls world_blocked"
    by blast+
  with 5 p5 e5
  have B: "\<exists>w'. single ext_sample 5 ''LogisticRegression'' ''I'' 42 (- 1) world_blocked
              = (Inl (FileExistsError ''/data/s1620444/05''), w')
         \<and> fst (prepare 5 world_blocked) = Inl (FileExistsError ''/data/s1620444/05'')
         \<and> stdout w' = [] \<and> calls w' = []"
    by auto
  from A B show ?thesis by (rule conjI)
qed

text \<open>
  With a regular file at the path of network 5, \<^verbatim>\<open>single\<close> raises and the two
  directories are not there afterwards; with the data directory not writable, it raises
  as well.
\<close>

theorem single_creates_directories_counterexample:
  "network_directory 5 = ''/data/s1620444/05''
   \<and> fst (single ext_sample 5 ''LogisticRegression'' ''I'' 42 (- 1) world_blocked)
       = Inl (FileExistsError ''/data/s1620444/05'')
   \<and> \<not> isdir (snd (single ext_sample 5 ''LogisticRegression'' ''I'' 42 (- 1) world_blocked))
         (network_directory 5)
   \<and> \<not> isdir (snd (single ext_sample 5 ''LogisticRegression'' ''I'' 42 (- 1) world_blocked))
         (network_directory_out 5)
   \<and> fst (single ext_sample 5 ''LogisticRegression'' ''I'' 42 (- 1) world_readonly)
       = Inl (PermissionError ''/data/s1620444/05'')
   \<and> \<not> isdir (snd (single ext_sample 5 ''LogisticRegression'' ''I'' 42 (- 1) world_readonly))
         (network_directory 5)"
  by code_simp

end
